theory Spec2Isabelle
  imports Complex_Main
begin

section \<open>Python values shared by the three source files\<close>

text \<open>
  Exceptions are values. The class of an exception matters in \<^verbatim>\<open>gen_mesh\<close>, whose handler
  is \<^verbatim>\<open>except Exception as e\<close>: it catches the subclasses of \<^verbatim>\<open>Exception\<close> only, while
  \<^verbatim>\<open>KeyboardInterrupt\<close> and \<^verbatim>\<open>SystemExit\<close> derive from \<^verbatim>\<open>BaseException\<close> directly.
\<close>

datatype exc_class =
    IndexError | KeyError | NameError | RuntimeError | ValueError | OSError
  | ZeroDivisionError | PlainException
  | KeyboardInterrupt | SystemExit

datatype py_exc = Raised exc_class string

fun is_Exception :: "py_exc \<Rightarrow> bool" where
  "is_Exception (Raised KeyboardInterrupt _) = False"
| "is_Exception (Raised SystemExit _) = False"
| "is_Exception (Raised _ _) = True"

text \<open>\<^verbatim>\<open>range(a, b)\<close> on Python's unbounded integers.\<close>

definition py_range :: "int \<Rightarrow> int \<Rightarrow> int list" where
  "py_range a b = [a..b - 1]"

section \<open>apps/recon\_mrv2.py: the test loop of recon\<close>

text \<open>
  \<^verbatim>\<open>
    if start_id < 0:
        start_id = 0
    if end_id < 0:
        end_id = len(test_dataset)
    ...
        for i in tqdm(range(start_id, end_id)):
            if i >= len(test_dataset):
                break
            test_data = test_dataset[i]
            save_path = ...
            gen_mesh(opt.resolution, netMR, cuda, test_data, save_path, components=opt.use_compose)
  \<close>
  The dataset is a list of items; \<^verbatim>\<open>test_dataset[i]\<close> is the only access to it. The access
  is written with its range check, so that an index outside \<open>0 \<le> i < len\<close> is a branch of the
  model. The loop body (\<^verbatim>\<open>gen_mesh\<close> on the item) is a parameter here: it works on a state
  \<open>'w\<close> and may raise. The loop returns the indices it passed to \<^verbatim>\<open>test_dataset[i]\<close>, in
  order, and how it ended.
\<close>

definition getitem :: "'d list \<Rightarrow> int \<Rightarrow> py_exc + 'd" where
  "getitem test_dataset i =
     (if 0 \<le> i \<and> i < int (length test_dataset) then Inr (test_dataset ! nat i)
      else Inl (Raised IndexError ''dataset index out of range''))"

fun test_loop ::
  "(int \<Rightarrow> 'd \<Rightarrow> 'w \<Rightarrow> py_exc + 'w) \<Rightarrow> 'd list \<Rightarrow> int list \<Rightarrow> 'w \<Rightarrow> int list \<times> (py_exc + 'w)"
where
  "test_loop body test_dataset [] w = ([], Inr w)"
| "test_loop body test_dataset (i # rest) w =
     (if i \<ge> int (length test_dataset) then ([], Inr w)
      else (case getitem test_dataset i of
              Inl e \<Rightarrow> ([i], Inl e)
            | Inr test_data \<Rightarrow>
                (case body i test_data w of
                   Inl e \<Rightarrow> ([i], Inl e)
                 | Inr w' \<Rightarrow>
                     (case test_loop body test_dataset rest w' of
                        (acc, r) \<Rightarrow> (i # acc, r)))))"

definition recon_test ::
  "(int \<Rightarrow> 'd \<Rightarrow> 'w \<Rightarrow> py_exc + 'w) \<Rightarrow> 'd list \<Rightarrow> int \<Rightarrow> int \<Rightarrow> 'w \<Rightarrow> int list \<times> (py_exc + 'w)"
where
  "recon_test body test_dataset start_id end_id w =
     (let start_id = (if start_id < 0 then 0 else start_id);
          end_id = (if end_id < 0 then int (length test_dataset) else end_id)
      in test_loop body test_dataset (py_range start_id end_id) w)"

text \<open>
  apps/submit\_eval.py, the module body: the pairs \<^verbatim>\<open>(start_id, end_id)\<close> it passes on the
  command line.
  \<^verbatim>\<open>
    interval = file_size // split_size
    for i in range(split_size+1):
        if split_size < 2:
            start_id = -1
            end_id = -1
        else:
            start_id = i * interval
            end_id = (i+1) * interval
  \<close>
\<close>

definition submit_ids :: "int \<Rightarrow> int \<Rightarrow> py_exc + (int \<times> int) list" where
  "submit_ids file_size split_size =
     (if split_size = 0 then Inl (Raised ZeroDivisionError ''integer division or modulo by zero'')
      else (let interval = file_size div split_size
            in Inr (map (\<lambda>i. if split_size < 2 then (-1, -1)
                              else (i * interval, (i + 1) * interval))
                      (py_range 0 (split_size + 1)))))"

section \<open>apps/recon\_mrv2.py: the options recon works with\<close>

text \<open>
  The options object is an \<^verbatim>\<open>argparse\<close> namespace built by \<^verbatim>\<open>lib.options.BaseOptions\<close>.
  The fields below are the ones recon\_mrv2.py reads or writes; every other field of the
  namespace lives in the extension part (\<open>more\<close>) of the record.
\<close>

record options =
  load_netMR_checkpoint_path :: "string option"
  resume_epoch :: int
  checkpoints_path :: string
  name :: string
  start_id :: int
  end_id :: int
  dataroot :: string
  resolution :: int
  results_path :: string
  loadSize :: int
  gpu_id :: int
  netG :: string
  use_compose :: bool

text \<open>
  The checkpoint \<^verbatim>\<open>torch.load\<close> returns is a dict; \<open>opt_entry\<close> is its value under the
  key \<^verbatim>\<open>'opt'\<close> (\<open>None\<close> when the key is absent), the other keys are the extension part.
\<close>

record 'a state_dict =
  opt_entry :: "'a options_scheme option"

text \<open>\<^verbatim>\<open>'%d' % n\<close>: the decimal digits of an integer.\<close>

fun str_nat :: "nat \<Rightarrow> string" where
  "str_nat n =
     (if n < 10 then [char_of (48 + n)]
      else str_nat (n div 10) @ [char_of (48 + n mod 10)])"

definition str_int :: "int \<Rightarrow> string" where
  "str_int i = (if i < 0 then CHR ''-'' # str_nat (nat (- i)) else str_nat (nat i))"

text \<open>
  \<^verbatim>\<open>
    state_dict_path = None
    if opt.load_netMR_checkpoint_path is not None:
        state_dict_path = opt.load_netMR_checkpoint_path
    elif opt.resume_epoch < 0:
        state_dict_path = '%s/%s_train_latest' % (opt.checkpoints_path, opt.name)
        opt.resume_epoch = 0
    else:
        state_dict_path = '%s/%s_train_epoch_%d' % (opt.checkpoints_path, opt.name, opt.resume_epoch)
  \<close>
  The assignment to \<^verbatim>\<open>opt.resume_epoch\<close> mutates the command-line object, so the function
  returns the object together with the path.
\<close>

definition checkpoint_path :: "'a options_scheme \<Rightarrow> string \<times> 'a options_scheme" where
  "checkpoint_path opt =
     (case load_netMR_checkpoint_path opt of
        Some p \<Rightarrow> (p, opt)
      | None \<Rightarrow>
          if resume_epoch opt < 0
          then (checkpoints_path opt @ ''/'' @ name opt @ ''_train_latest'',
                opt\<lparr>resume_epoch := 0\<rparr>)
          else (checkpoints_path opt @ ''/'' @ name opt @ ''_train_epoch_''
                  @ str_int (resume_epoch opt), opt))"

text \<open>
  \<^verbatim>\<open>
    start_id = opt.start_id
    end_id = opt.end_id

    state_dict = None
    if state_dict_path is not None and os.path.exists(state_dict_path):
        state_dict = torch.load(state_dict_path)
        if 'opt' in state_dict:
            dataroot = opt.dataroot
            resolution = opt.resolution
            results_path = opt.results_path
            loadSize = opt.loadSize

            opt = state_dict['opt']
            opt.dataroot = dataroot
            opt.resolution = resolution
            opt.results_path = results_path
            opt.loadSize = loadSize
    else:
        raise Exception('failed loading state dict!', state_dict_path)
  \<close>
  \<open>path_exists\<close> and \<open>torch_load\<close> stand for the file system. The result is the options
  object recon goes on with, the checkpoint (whose \<^verbatim>\<open>'opt'\<close> entry is the same object, so
  it carries the four assignments too), and the two loop bounds, which were read from the
  command line before the replacement.
\<close>

definition load_checkpoint ::
  "(string \<Rightarrow> bool) \<Rightarrow> (string \<Rightarrow> py_exc + ('a, 'z) state_dict_scheme) \<Rightarrow> 'a options_scheme
     \<Rightarrow> py_exc + ('a options_scheme \<times> ('a, 'z) state_dict_scheme \<times> int \<times> int)"
where
  "load_checkpoint path_exists torch_load cmd_opt =
     (case checkpoint_path cmd_opt of
        (state_dict_path, opt) \<Rightarrow>
          if path_exists state_dict_path then
            (case torch_load state_dict_path of
               Inl e \<Rightarrow> Inl e
             | Inr state_dict \<Rightarrow>
                 (case opt_entry state_dict of
                    Some saved \<Rightarrow>
                      (let opt' = saved\<lparr>dataroot := dataroot opt,
                                         resolution := resolution opt,
                                         results_path := results_path opt,
                                         loadSize := loadSize opt\<rparr>
                       in Inr (opt', state_dict\<lparr>opt_entry := Some opt'\<rparr>,
                               start_id opt, end_id opt))
                  | None \<Rightarrow> Inr (opt, state_dict, start_id opt, end_id opt)))
          else Inl (Raised PlainException (''failed loading state dict! '' @ state_dict_path)))"

text \<open>A command line and two checkpoints, used to run the definitions above.\<close>

definition cmd_line :: options where
  "cmd_line =
     \<lparr>load_netMR_checkpoint_path = None, resume_epoch = -1, checkpoints_path = ''ckpt'',
      name = ''pifuhd'', start_id = -1, end_id = -1, dataroot = ''data'', resolution = 512,
      results_path = ''out'', loadSize = 1024, gpu_id = 0, netG = ''hg'', use_compose = False\<rparr>"

definition saved_opt :: options where
  "saved_opt =
     \<lparr>load_netMR_checkpoint_path = Some ''old.pt'', resume_epoch = 7, checkpoints_path = ''c0'',
      name = ''trained'', start_id = 3, end_id = 4, dataroot = ''train_data'', resolution = 256,
      results_path = ''train_out'', loadSize = 512, gpu_id = 2, netG = ''hg_ablation'',
      use_compose = True\<rparr>"

section \<open>apps/recon\_mrv2.py: gen\_mesh\<close>

subsection \<open>Slices\<close>

text \<open>
  \<^verbatim>\<open>a[left:right]\<close> on a sequence of length \<open>n\<close>, for Python lists, numpy arrays and torch
  tensors alike: a negative bound counts from the end, and both bounds are clipped to
  \<open>0..n\<close>. \<open>slice_bounds\<close> returns the first index of the slice and the index after its
  last one.
\<close>

definition slice_bounds :: "nat \<Rightarrow> int \<Rightarrow> int \<Rightarrow> nat \<times> nat" where
  "slice_bounds n left right =
     (let lo = (if left < 0 then max (left + int n) 0 else min left (int n));
          hi = (if right < 0 then max (right + int n) 0 else min right (int n))
      in (nat lo, nat (max lo hi)))"

definition py_slice :: "'a list \<Rightarrow> int \<Rightarrow> int \<Rightarrow> 'a list" where
  "py_slice xs left right =
     (case slice_bounds (length xs) left right of (lo, hi) \<Rightarrow> take (hi - lo) (drop lo xs))"

text \<open>
  \<^verbatim>\<open>color[left:right] = rows\<close> on a numpy array of rows: the rows assigned must be as many
  as the slice has, or a single row, which is broadcast; anything else raises
  \<^verbatim>\<open>ValueError\<close>. The array keeps its length.
\<close>

definition slice_assign :: "'a list \<Rightarrow> int \<Rightarrow> int \<Rightarrow> 'a list \<Rightarrow> py_exc + 'a list" where
  "slice_assign xs left right rows =
     (case slice_bounds (length xs) left right of
        (lo, hi) \<Rightarrow>
          if length rows = hi - lo then Inr (take lo xs @ rows @ drop hi xs)
          else if length rows = 1 then Inr (take lo xs @ replicate (hi - lo) (hd rows) @ drop hi xs)
          else Inl (Raised ValueError ''could not broadcast input array''))"

subsection \<open>Meshes, files and the state gen\_mesh works on\<close>

type_synonym vec3 = "real \<times> real \<times> real"

type_synonym face = "int \<times> int \<times> int"

text \<open>
  A mesh file is a sequence of lines, one per vertex (position and colour) and one per
  face; the digits each number is printed with are not part of the model.
\<close>

datatype obj_line = Vertex vec3 vec3 | Face face

datatype 'img file_content = Png 'img | Obj "obj_line list"

text \<open>The arguments of one call of \<^verbatim>\<open>reconstruction\<close> (lib/mesh\_util.py), in call order.\<close>

record 'cal recon_args =
  arg_calib :: 'cal
  arg_res :: int
  arg_b_min :: vec3
  arg_b_max :: vec3
  arg_thresh :: real
  arg_use_octree :: bool
  arg_num_samples :: int

text \<open>
  The state: the network object (its stored features), the files written so far, what
  has been printed, and the calls of \<^verbatim>\<open>reconstruction\<close> made so far.
\<close>

record ('n, 'img, 'cal) world =
  net :: 'n
  files :: "string \<rightharpoonup> 'img file_content"
  stdout :: "string list"
  reconstruction_calls :: "'cal recon_args list"

text \<open>One item of the test dataset: the dict \<^verbatim>\<open>data\<close> of gen\_mesh.\<close>

record ('img, 'cal) test_data =
  data_name :: string
  img :: "'img list"
  img_512 :: "'img list"
  calib :: 'cal
  b_min :: vec3
  b_max :: vec3
  calib_world :: "real list list option"

text \<open>
  What gen\_mesh calls outside this file: the methods of the network (torchy/model, the
  multi-resolution class is not among the sources), \<^verbatim>\<open>reconstruction\<close>, numpy and OpenCV.
  Each may raise. \<open>nmlF\<close> and \<open>nmlB\<close> are the normal maps of \<^verbatim>\<open>net.netG\<close>: \<open>Inr None\<close>
  when \<^verbatim>\<open>netF\<close> (\<^verbatim>\<open>netB\<close>) is \<^verbatim>\<open>None\<close>, \<open>Inl\<close> when reading them or concatenating
  raises. \<open>calc_normal\<close> returns the rows of \<^verbatim>\<open>net.nmls[0].T\<close>, one normal per point.
\<close>

record ('n, 'img, 'cal) env =
  filter_global :: "'img list \<Rightarrow> 'n \<Rightarrow> py_exc + 'n"
  filter_local :: "'img list \<Rightarrow> 'n \<Rightarrow> py_exc + 'n"
  nmlF :: "'n \<Rightarrow> py_exc + 'img list option"
  nmlB :: "'n \<Rightarrow> py_exc + 'img list option"
  to_bgr :: "'img \<Rightarrow> 'img"
  concatenate :: "'img list \<Rightarrow> py_exc + 'img"
  imwrite :: "string \<Rightarrow> 'img \<Rightarrow> py_exc + bool"
  reconstruction :: "'n \<Rightarrow> 'cal recon_args \<Rightarrow> py_exc + (vec3 list \<times> face list)"
  linalg_inv :: "real list list \<Rightarrow> py_exc + real list list"
  calc_normal :: "'n \<Rightarrow> 'cal \<Rightarrow> vec3 list \<Rightarrow> py_exc + vec3 list"
  writable :: "string \<Rightarrow> bool"

text \<open>\<^verbatim>\<open>print(e)\<close> prints the message of the exception.\<close>

fun exc_str :: "py_exc \<Rightarrow> string" where
  "exc_str (Raised c msg) = msg"

subsection \<open>The mesh writer\<close>

text \<open>
  Modelled from the spec: \<^verbatim>\<open>save_obj_mesh_with_color\<close> of lib/mesh\_util.py is not among the
  sources. The spec's Mesh Writer "serializes vertices, faces, and color to a text mesh
  format": every vertex with the colour of the same index, then every face, written to
  the file at the given path. Opening a path that cannot be written raises, as does a
  colour array shorter than the vertex array.
\<close>

definition save_obj_mesh_with_color ::
  "(string \<Rightarrow> bool) \<Rightarrow> string \<Rightarrow> vec3 list \<Rightarrow> face list \<Rightarrow> vec3 list
     \<Rightarrow> ('n, 'img, 'cal) world \<Rightarrow> py_exc + ('n, 'img, 'cal) world"
where
  "save_obj_mesh_with_color can_write mesh_path verts faces colors w =
     (if \<not> can_write mesh_path then Inl (Raised OSError mesh_path)
      else if length colors < length verts then Inl (Raised IndexError ''index out of bounds'')
      else Inr (w\<lparr>files := (files w)(mesh_path \<mapsto>
                  Obj (map (\<lambda>(v, c). Vertex v c) (zip verts colors) @ map Face faces))\<rparr>))"

subsection \<open>The steps of gen\_mesh\<close>

text \<open>
  \<^verbatim>\<open>
    try:
        if net.netG.netF is not None:
            image_tensor_global = torch.cat([image_tensor_global, net.netG.nmlF], 0)
        if net.netG.netB is not None:
            image_tensor_global = torch.cat([image_tensor_global, net.netG.nmlB], 0)
    except:
        pass
  \<close>
  The bare \<^verbatim>\<open>except\<close> swallows every exception; what was assigned before it stays.
\<close>

definition with_normal_maps :: "('n, 'img, 'cal) env \<Rightarrow> 'n \<Rightarrow> 'img list \<Rightarrow> 'img list" where
  "with_normal_maps e n image_tensor_global =
     (case nmlF e n of
        Inl _ \<Rightarrow> image_tensor_global
      | Inr f \<Rightarrow>
          (let image_tensor_global =
                 (case f of None \<Rightarrow> image_tensor_global | Some m \<Rightarrow> image_tensor_global @ m)
           in case nmlB e n of
                Inl _ \<Rightarrow> image_tensor_global
              | Inr b \<Rightarrow>
                  (case b of None \<Rightarrow> image_tensor_global | Some m \<Rightarrow> image_tensor_global @ m)))"

text \<open>
  \<^verbatim>\<open>
        save_img_path = save_path[:-4] + '.png'
        save_img_list = []
        for v in range(image_tensor_global.shape[0]):
            save_img = (np.transpose(...) * 0.5 + 0.5)[:, :, ::-1] * 255.0
            save_img_list.append(save_img)
        save_img = np.concatenate(save_img_list, axis=1)
        cv2.imwrite(save_img_path, save_img)
  \<close>
\<close>

definition save_images ::
  "('n, 'img, 'cal) env \<Rightarrow> string \<Rightarrow> 'img list \<Rightarrow> ('n, 'img, 'cal) world
     \<Rightarrow> py_exc + ('n, 'img, 'cal) world"
where
  "save_images e save_path image_tensor_global w =
     (let save_img_path = take (length save_path - 4) save_path @ ''.png'';
          save_img_list = map (to_bgr e) image_tensor_global
      in case concatenate e save_img_list of
           Inl x \<Rightarrow> Inl x
         | Inr save_img \<Rightarrow>
             (case imwrite e save_img_path save_img of
                Inl x \<Rightarrow> Inl x
              | Inr written \<Rightarrow>
                  Inr (if written then w\<lparr>files := (files w)(save_img_path \<mapsto> Png save_img)\<rparr>
                       else w)))"

text \<open>
  \<^verbatim>\<open>
        if 'calib_world' in data:
            calib_world = data['calib_world'].numpy()[0]
            verts = np.matmul(np.concatenate([verts, np.ones_like(verts[:,:1])],1),
                              inv(calib_world).T)[:,:3]
  \<close>
  Row \<open>j\<close> of the inverse, applied to \<open>(x, y, z, 1)\<close>, is component \<open>j\<close> of the new vertex.
  \<^verbatim>\<open>matmul\<close> raises unless the inverse has four columns; an inverse is square.
\<close>

definition dot4 :: "real list \<Rightarrow> vec3 \<Rightarrow> real" where
  "dot4 row v = (case v of (x, y, z) \<Rightarrow> row ! 0 * x + row ! 1 * y + row ! 2 * z + row ! 3)"

definition to_world ::
  "('n, 'img, 'cal) env \<Rightarrow> real list list \<Rightarrow> vec3 list \<Rightarrow> py_exc + vec3 list"
where
  "to_world e cw verts =
     (case linalg_inv e cw of
        Inl x \<Rightarrow> Inl x
      | Inr m \<Rightarrow>
          if length m = 4 \<and> (\<forall>row \<in> set m. length row = 4)
          then Inr (map (\<lambda>v. (dot4 (m ! 0) v, dot4 (m ! 1) v, dot4 (m ! 2) v)) verts)
          else Inl (Raised ValueError ''matmul: mismatch in core dimension''))"

text \<open>
  \<^verbatim>\<open>
        color = np.zeros(verts.shape)
        interval = 100000
        for i in range(len(color) // interval + 1):
            left = i * interval
            if i == len(color) // interval:
                right = -1
            else:
                right = (i + 1) * interval
            net.calc_normal(verts_tensor[:, None, :, left:right], calib_tensor[:,None], calib_tensor)
            nml = net.nmls.detach().cpu().numpy()[0] * 0.5 + 0.5
            color[left:right] = nml.T
  \<close>
  \<open>calc\<close> is \<^verbatim>\<open>net.calc_normal\<close> on the points of the chunk, with the calibration fixed.
\<close>

fun color_chunks ::
  "(vec3 list \<Rightarrow> py_exc + vec3 list) \<Rightarrow> int \<Rightarrow> vec3 list \<Rightarrow> int list \<Rightarrow> vec3 list
     \<Rightarrow> py_exc + vec3 list"
where
  "color_chunks calc interval verts_tensor [] color = Inr color"
| "color_chunks calc interval verts_tensor (i # rest) color =
     (let left = i * interval;
          right = (if i = int (length color) div interval then -1 else (i + 1) * interval)
      in case calc (py_slice verts_tensor left right) of
           Inl x \<Rightarrow> Inl x
         | Inr nmls \<Rightarrow>
             (let nml = map (\<lambda>(x, y, z). (x * 0.5 + 0.5, y * 0.5 + 0.5, z * 0.5 + 0.5)) nmls
              in case slice_assign color left right nml of
                   Inl x \<Rightarrow> Inl x
                 | Inr color' \<Rightarrow> color_chunks calc interval verts_tensor rest color'))"

definition vertex_colors ::
  "(vec3 list \<Rightarrow> py_exc + vec3 list) \<Rightarrow> vec3 list \<Rightarrow> vec3 list \<Rightarrow> py_exc + vec3 list"
where
  "vertex_colors calc verts_tensor verts =
     (let color = replicate (length verts) (0, 0, 0);
          interval = 100000
      in color_chunks calc interval verts_tensor
           (py_range 0 (int (length color) div interval + 1)) color)"

subsection \<open>gen\_mesh\<close>

text \<open>
  The arguments of the one call
  \<^verbatim>\<open>reconstruction(net, cuda, calib_tensor, res, b_min, b_max, thresh, use_octree=use_octree, num_samples=100000)\<close>.
\<close>

definition reconstruction_args ::
  "('img, 'cal) test_data \<Rightarrow> int \<Rightarrow> real \<Rightarrow> bool \<Rightarrow> 'cal recon_args"
where
  "reconstruction_args data res thresh use_octree =
     \<lparr>arg_calib = calib data, arg_res = res, arg_b_min = b_min data, arg_b_max = b_max data,
      arg_thresh = thresh, arg_use_octree = use_octree, arg_num_samples = 100000\<rparr>"

text \<open>
  The \<^verbatim>\<open>try\<close> block of gen\_mesh, from \<^verbatim>\<open>save_img_path = ...\<close> to
  \<^verbatim>\<open>save_obj_mesh_with_color(save_path, verts, faces, color)\<close>. The result is the exception
  that left the block, if any, and the state at that moment.
\<close>

definition gen_mesh_try ::
  "('n, 'img, 'cal) env \<Rightarrow> int \<Rightarrow> ('img, 'cal) test_data \<Rightarrow> 'img list \<Rightarrow> string \<Rightarrow> real \<Rightarrow> bool
     \<Rightarrow> ('n, 'img, 'cal) world \<Rightarrow> py_exc option \<times> ('n, 'img, 'cal) world"
where
  "gen_mesh_try e res data image_tensor_global save_path thresh use_octree w =
     (case save_images e save_path image_tensor_global w of
        Inl x \<Rightarrow> (Some x, w)
      | Inr w1 \<Rightarrow>
          (let args = reconstruction_args data res thresh use_octree;
               w2 = w1\<lparr>reconstruction_calls := reconstruction_calls w1 @ [args]\<rparr>
           in case reconstruction e (net w2) args of
                Inl x \<Rightarrow> (Some x, w2)
              | Inr (verts, faces) \<Rightarrow>
                  (let verts_tensor = verts
                   in case (case calib_world data of
                              None \<Rightarrow> Inr verts
                            | Some cw \<Rightarrow> to_world e cw verts) of
                        Inl x \<Rightarrow> (Some x, w2)
                      | Inr verts \<Rightarrow>
                          (case vertex_colors (calc_normal e (net w2) (calib data))
                                  verts_tensor verts of
                             Inl x \<Rightarrow> (Some x, w2)
                           | Inr color \<Rightarrow>
                               (case save_obj_mesh_with_color (writable e) save_path
                                       verts faces color w2 of
                                  Inl x \<Rightarrow> (Some x, w2)
                                | Inr w3 \<Rightarrow> (None, w3))))))"

text \<open>
  \<^verbatim>\<open>
  def gen_mesh(res, net, cuda, data, save_path, thresh=0.5, use_octree=True, components=False):
      ...
      net.filter_global(image_tensor_global)
      net.filter_local(image_tensor[:,None])
      ...
      try:
          ...
      except Exception as e:
          print(e)
  \<close>
  An optional argument that the caller leaves out is \<open>None\<close> here and takes the default
  of the signature. The network is the \<open>net\<close> of the state. The result is the exception
  gen\_mesh propagates (\<open>None\<close> when it returns normally) and the state it leaves.
\<close>

definition gen_mesh ::
  "('n, 'img, 'cal) env \<Rightarrow> int \<Rightarrow> ('img, 'cal) test_data \<Rightarrow> string \<Rightarrow> real option
     \<Rightarrow> bool option \<Rightarrow> bool option
     \<Rightarrow> ('n, 'img, 'cal) world \<Rightarrow> py_exc option \<times> ('n, 'img, 'cal) world"
where
  "gen_mesh e res data save_path thresh use_octree components w =
     (let thresh = (case thresh of None \<Rightarrow> 0.5 | Some t \<Rightarrow> t);
          use_octree = (case use_octree of None \<Rightarrow> True | Some b \<Rightarrow> b);
          components = (case components of None \<Rightarrow> False | Some b \<Rightarrow> b)
      in case filter_global e (img_512 data) (net w) of
           Inl x \<Rightarrow> (Some x, w)
         | Inr n1 \<Rightarrow>
             (case filter_local e (img data) n1 of
                Inl x \<Rightarrow> (Some x, w\<lparr>net := n1\<rparr>)
              | Inr n2 \<Rightarrow>
                  (let w1 = w\<lparr>net := n2\<rparr>;
                       image_tensor_global = with_normal_maps e n2 (img_512 data)
                   in case gen_mesh_try e res data image_tensor_global save_path thresh
                             use_octree w1 of
                        (None, w2) \<Rightarrow> (None, w2)
                      | (Some x, w2) \<Rightarrow>
                          if is_Exception x
                          then (None, w2\<lparr>stdout := stdout w2 @ [exc_str x]\<rparr>)
                          else (Some x, w2))))"

text \<open>
  The body of recon's test loop:
  \<^verbatim>\<open>
                test_data = test_dataset[i]
                save_path = '%s/%s/recon/result_%s.obj' % (opt.results_path, opt.name, test_data['name'])
                gen_mesh(opt.resolution, netMR, cuda, test_data, save_path, components=opt.use_compose)
  \<close>
\<close>

definition recon_body ::
  "('n, 'img, 'cal) env \<Rightarrow> 'a options_scheme \<Rightarrow> int \<Rightarrow> ('img, 'cal) test_data
     \<Rightarrow> ('n, 'img, 'cal) world \<Rightarrow> py_exc + ('n, 'img, 'cal) world"
where
  "recon_body e opt i test_data w =
     (let save_path = results_path opt @ ''/'' @ name opt @ ''/recon/result_''
                        @ data_name test_data @ ''.obj''
      in case gen_mesh e (resolution opt) test_data save_path None None
                (Some (use_compose opt)) w of
           (None, w') \<Rightarrow> Inr w'
         | (Some x, w') \<Rightarrow> Inl x)"

subsection \<open>Normals, colours and a small run\<close>

text \<open>
  A normal with every component in \<open>[-1, 1]\<close>, and a colour with every component in
  \<open>[0, 1]\<close>.
\<close>

definition in_cube :: "vec3 \<Rightarrow> bool" where
  "in_cube v =
     (case v of (x, y, z) \<Rightarrow> -1 \<le> x \<and> x \<le> 1 \<and> -1 \<le> y \<and> y \<le> 1 \<and> -1 \<le> z \<and> z \<le> 1)"

definition unit_color :: "vec3 \<Rightarrow> bool" where
  "unit_color c =
     (case c of (r, g, b) \<Rightarrow> 0 \<le> r \<and> r \<le> 1 \<and> 0 \<le> g \<and> g \<le> 1 \<and> 0 \<le> b \<and> b \<le> 1)"

text \<open>The colour gen\_mesh makes of a normal: \<^verbatim>\<open>n * 0.5 + 0.5\<close> in every component.\<close>

definition mapped_normal :: "vec3 \<Rightarrow> vec3" where
  "mapped_normal v = (case v of (x, y, z) \<Rightarrow> (x * 0.5 + 0.5, y * 0.5 + 0.5, z * 0.5 + 0.5))"

text \<open>
  An environment in which every call succeeds: reconstruction returns one triangle and
  every normal is \<open>(0, 0, 1)\<close>. It is used to run gen\_mesh on a concrete input.
\<close>

definition demo_env :: "(nat, nat, unit) env" where
  "demo_env =
     \<lparr>filter_global = (\<lambda>imgs n. Inr (n + length imgs)),
      filter_local = (\<lambda>imgs n. Inr n),
      nmlF = (\<lambda>n. Inr None),
      nmlB = (\<lambda>n. Inr None),
      to_bgr = (\<lambda>i. i),
      concatenate = (\<lambda>xs. if xs = [] then Inl (Raised ValueError ''need at least one array'')
                           else Inr (sum_list xs)),
      imwrite = (\<lambda>p i. Inr True),
      reconstruction = (\<lambda>n a. Inr ([(0, 0, 0), (1, 0, 0), (0, 1, 0)], [(0, 1, 2)])),
      linalg_inv = (\<lambda>m. Inr m),
      calc_normal = (\<lambda>n c pts. Inr (map (\<lambda>p. (0, 0, 1)) pts)),
      writable = (\<lambda>p. True)\<rparr>"

definition demo_data :: "(nat, unit) test_data" where
  "demo_data =
     \<lparr>data_name = ''a'', img = [1], img_512 = [2], calib = (),
      b_min = (-1, -1, -1), b_max = (1, 1, 1), calib_world = None\<rparr>"

definition demo_world :: "(nat, nat, unit) world" where
  "demo_world = \<lparr>net = 0, files = Map.empty, stdout = [], reconstruction_calls = []\<rparr>"

section \<open>torchy/model/HGPIFuNet.py\<close>

subsection \<open>Tensors of rank three\<close>

text \<open>
  A tensor \<^verbatim>\<open>[B, C, N]\<close>: its sizes and its elements, over the reals. An element outside the
  sizes is never read by the operations below without a check.
\<close>

record tensor3 =
  dims :: "nat \<times> nat \<times> nat"
  elem :: "nat \<Rightarrow> nat \<Rightarrow> nat \<Rightarrow> real"

text \<open>\<^verbatim>\<open>t[:, :k, :]\<close>\<close>

definition take_channels :: "nat \<Rightarrow> tensor3 \<Rightarrow> tensor3" where
  "take_channels k t = (case dims t of (B, C, N) \<Rightarrow> t\<lparr>dims := (B, min k C, N)\<rparr>)"

text \<open>
  Broadcasting of one dimension: equal sizes, or one of them 1. \<open>pick d i\<close> is the index
  read in a dimension of size \<open>d\<close> for the index \<open>i\<close> of the result.
\<close>

definition bdim :: "nat \<Rightarrow> nat \<Rightarrow> nat option" where
  "bdim a b = (if a = b then Some a else if a = 1 then Some b else if b = 1 then Some a else None)"

definition pick :: "nat \<Rightarrow> nat \<Rightarrow> nat" where
  "pick d i = (if d = 1 then 0 else i)"

text \<open>\<^verbatim>\<open>s * t\<close>, elementwise with broadcasting; sizes that do not broadcast raise.\<close>

definition tmul :: "tensor3 \<Rightarrow> tensor3 \<Rightarrow> py_exc + tensor3" where
  "tmul s t =
     (case (dims s, dims t) of
        ((B1, C1, N1), (B2, C2, N2)) \<Rightarrow>
          (case (bdim B1 B2, bdim C1 C2, bdim N1 N2) of
             (Some B, Some C, Some N) \<Rightarrow>
               Inr \<lparr>dims = (B, C, N),
                    elem = (\<lambda>b c n. elem s (pick B1 b) (pick C1 c) (pick N1 n)
                                     * elem t (pick B2 b) (pick C2 c) (pick N2 n))\<rparr>
           | _ \<Rightarrow> Inl (Raised RuntimeError ''The size of tensor a must match the size of tensor b'')))"

text \<open>\<^verbatim>\<open>torch.cat([s, t], 1)\<close>: the other two sizes must agree.\<close>

definition tcat1 :: "tensor3 \<Rightarrow> tensor3 \<Rightarrow> py_exc + tensor3" where
  "tcat1 s t =
     (case (dims s, dims t) of
        ((B1, C1, N1), (B2, C2, N2)) \<Rightarrow>
          if B1 = B2 \<and> N1 = N2
          then Inr \<lparr>dims = (B1, C1 + C2, N1),
                    elem = (\<lambda>b c n. if c < C1 then elem s b c n else elem t b (c - C1) n)\<rparr>
          else Inl (Raised RuntimeError ''Sizes of tensors must match except in dimension 1''))"

text \<open>
  \<^verbatim>\<open>F.normalize(t, dim=1, eps=eps)\<close>: every column \<open>t[b, :, n]\<close> divided by the larger of its
  Euclidean norm and \<open>eps\<close>.
\<close>

definition norm1 :: "tensor3 \<Rightarrow> nat \<Rightarrow> nat \<Rightarrow> real" where
  "norm1 t b n = (case dims t of (B, C, N) \<Rightarrow> sqrt (\<Sum>c<C. (elem t b c n)\<^sup>2))"

definition normalize :: "real \<Rightarrow> tensor3 \<Rightarrow> tensor3" where
  "normalize eps t = t\<lparr>elem := (\<lambda>b c n. elem t b c n / max (norm1 t b n) eps)\<rparr>"

subsection \<open>The network object\<close>

text \<open>
  The fields of an \<^verbatim>\<open>HGPIFuNet\<close> that the three methods below read or write. The
  projection (\<^verbatim>\<open>BasePIFuNet\<close>), the hourglass image filter, the spatial encoder, the
  feature sampler \<^verbatim>\<open>index\<close> and the MLP are not among the sources: they are fields of
  function type, and each may raise. \<open>spatial_enc_filter\<close> is \<^verbatim>\<open>self.spatial_enc.filter\<close>
  of the volumetric encoder, which yields the encoder used afterwards. \<open>self_labels\<close> and
  \<open>self_labels_nml\<close> are \<^verbatim>\<open>self.labels\<close> and \<^verbatim>\<open>self.labels_nml\<close>.
\<close>

record ('img, 'feat, 'cal, 'tr) hgpifu =
  sp_enc_type :: string
  sp_no_pifu :: bool
  training :: bool
  projection :: "tensor3 \<Rightarrow> 'cal \<Rightarrow> 'tr option \<Rightarrow> py_exc + tensor3"
  image_filter :: "'img \<Rightarrow> py_exc + ('feat list \<times> 'feat)"
  spatial_enc_filter :: "'img \<Rightarrow> py_exc + (tensor3 \<Rightarrow> 'cal \<Rightarrow> py_exc + tensor3)"
  spatial_enc :: "tensor3 \<Rightarrow> 'cal \<Rightarrow> py_exc + tensor3"
  index :: "'feat \<Rightarrow> tensor3 \<Rightarrow> py_exc + tensor3"
  mlp :: "tensor3 \<Rightarrow> py_exc + tensor3"
  im_feat_list :: "'feat list"
  normx :: "'feat option"
  intermediate_preds_list :: "tensor3 list"
  preds :: "tensor3 option"
  self_labels :: "tensor3 option"
  self_labels_nml :: "tensor3 option"
  nmls :: "tensor3 option"
  preds_surface :: "tensor3 option"

text \<open>\<^verbatim>\<open>nn.Sigmoid\<close>\<close>

definition Sigmoid :: "real \<Rightarrow> real" where
  "Sigmoid x = 1 / (1 + exp (- x))"

text \<open>
  Modelled from the spec: the class \<^verbatim>\<open>MLP\<close> of torchy/model/MLP.py is not among the
  sources. The network "maps (3D point, image features) to occupancy probability", each
  prediction being the output of an MLP with a final Sigmoid: the forward pass applies
  the layers and then \<^verbatim>\<open>last_op\<close> to every element of their output.
\<close>

definition MLP :: "(tensor3 \<Rightarrow> py_exc + tensor3) \<Rightarrow> (real \<Rightarrow> real) \<Rightarrow> tensor3 \<Rightarrow> py_exc + tensor3" where
  "MLP layers last_op feature =
     (case layers feature of
        Inl x \<Rightarrow> Inl x
      | Inr y \<Rightarrow> Inr (y\<lparr>elem := (\<lambda>b c n. last_op (elem y b c n))\<rparr>))"

text \<open>
  \<^verbatim>\<open>__init__\<close>: the MLP is built with \<^verbatim>\<open>last_op=nn.Sigmoid()\<close>; a spatial encoding type
  other than \<^verbatim>\<open>'vol_enc'\<close> and \<^verbatim>\<open>'z'\<close> raises \<^verbatim>\<open>NameError\<close>. The arguments are the option
  fields read and the parts built from the classes that are not among the sources. A new
  module is in training mode.
\<close>

definition HGPIFuNet_init ::
  "string \<Rightarrow> bool \<Rightarrow> (tensor3 \<Rightarrow> 'cal \<Rightarrow> 'tr option \<Rightarrow> py_exc + tensor3)
     \<Rightarrow> ('img \<Rightarrow> py_exc + ('feat list \<times> 'feat))
     \<Rightarrow> (tensor3 \<Rightarrow> py_exc + tensor3)
     \<Rightarrow> ('img \<Rightarrow> py_exc + (tensor3 \<Rightarrow> 'cal \<Rightarrow> py_exc + tensor3))
     \<Rightarrow> (tensor3 \<Rightarrow> 'cal \<Rightarrow> py_exc + tensor3)
     \<Rightarrow> ('feat \<Rightarrow> tensor3 \<Rightarrow> py_exc + tensor3)
     \<Rightarrow> py_exc + ('img, 'feat, 'cal, 'tr) hgpifu"
where
  "HGPIFuNet_init opt_sp_enc_type opt_sp_no_pifu proj HGFilter layers VolumetricEncoder_filter
       encoder sampler =
     (if opt_sp_enc_type = ''vol_enc'' \<or> opt_sp_enc_type = ''z'' then
        Inr \<lparr>sp_enc_type = opt_sp_enc_type, sp_no_pifu = opt_sp_no_pifu, training = True,
             projection = proj, image_filter = HGFilter,
             spatial_enc_filter = VolumetricEncoder_filter, spatial_enc = encoder,
             index = sampler, mlp = MLP layers Sigmoid,
             im_feat_list = [], normx = None, intermediate_preds_list = [], preds = None,
             self_labels = None, self_labels_nml = None, nmls = None, preds_surface = None\<rparr>
      else Inl (Raised NameError ''unknown spatial encoding type''))"

text \<open>\<^verbatim>\<open>nn.Module.eval()\<close>\<close>

definition eval_mode :: "('img, 'feat, 'cal, 'tr) hgpifu \<Rightarrow> ('img, 'feat, 'cal, 'tr) hgpifu" where
  "eval_mode self = self\<lparr>training := False\<rparr>"

subsection \<open>filter\<close>

text \<open>
  \<^verbatim>\<open>
    def filter(self, images):
        if self.opt.sp_enc_type == 'vol_enc':
            self.spatial_enc.filter(images)

        self.im_feat_list, self.normx = self.image_filter(images)
        if not self.training:
            self.im_feat_list = [self.im_feat_list[-1]]
  \<close>
\<close>

definition HGPIFuNet_filter ::
  "('img, 'feat, 'cal, 'tr) hgpifu \<Rightarrow> 'img \<Rightarrow> py_exc + ('img, 'feat, 'cal, 'tr) hgpifu"
where
  "HGPIFuNet_filter self images =
     (case (if sp_enc_type self = ''vol_enc''
            then spatial_enc_filter self images else Inr (spatial_enc self)) of
        Inl x \<Rightarrow> Inl x
      | Inr enc \<Rightarrow>
          (case image_filter self images of
             Inl x \<Rightarrow> Inl x
           | Inr (feats, nx) \<Rightarrow>
               if \<not> training self then
                 (if feats = [] then Inl (Raised IndexError ''list index out of range'')
                  else Inr (self\<lparr>spatial_enc := enc, im_feat_list := [last feats],
                                 normx := Some nx\<rparr>))
               else Inr (self\<lparr>spatial_enc := enc, im_feat_list := feats, normx := Some nx\<rparr>)))"

subsection \<open>query\<close>

text \<open>
  \<^verbatim>\<open>
        in_bb = (xyz >= -1) & (xyz <= 1)
        in_bb = in_bb[:, 0, :] & in_bb[:, 1, :] & in_bb[:, 2, :]
        in_bb = in_bb[:, None, :].detach().float()
  \<close>
  Indexing channel 0, 1 or 2 of a tensor with fewer channels raises \<^verbatim>\<open>IndexError\<close>.
\<close>

definition in_bb_of :: "tensor3 \<Rightarrow> py_exc + tensor3" where
  "in_bb_of xyz =
     (case dims xyz of
        (B, C, N) \<Rightarrow>
          if C < 3 then Inl (Raised IndexError ''index out of bounds for dimension 1'')
          else Inr \<lparr>dims = (B, 1, N),
                    elem = (\<lambda>b c n.
                      if (-1 \<le> elem xyz b 0 n \<and> elem xyz b 0 n \<le> 1)
                         \<and> (-1 \<le> elem xyz b 1 n \<and> elem xyz b 1 n \<le> 1)
                         \<and> (-1 \<le> elem xyz b 2 n \<and> elem xyz b 2 n \<le> 1)
                      then 1 else 0)\<rparr>)"

text \<open>
  \<^verbatim>\<open>
            if self.opt.sp_enc_type == 'vol_enc' and self.opt.sp_no_pifu:
                point_local_feat = sp_feat
            else:
                point_local_feat_list = [self.index(im_feat, xy), sp_feat]
                point_local_feat = torch.cat(point_local_feat_list, 1)
  \<close>
\<close>

definition point_local_feat ::
  "('img, 'feat, 'cal, 'tr) hgpifu \<Rightarrow> 'feat \<Rightarrow> tensor3 \<Rightarrow> tensor3 \<Rightarrow> py_exc + tensor3"
where
  "point_local_feat self im_feat xy sp_feat =
     (if sp_enc_type self = ''vol_enc'' \<and> sp_no_pifu self then Inr sp_feat
      else (case index self im_feat xy of
              Inl x \<Rightarrow> Inl x
            | Inr sampled \<Rightarrow> tcat1 sampled sp_feat))"

text \<open>
  The loop of query over \<^verbatim>\<open>self.im_feat_list\<close>; the result is
  \<^verbatim>\<open>self.intermediate_preds_list\<close>.
  \<^verbatim>\<open>
        for i, im_feat in enumerate(self.im_feat_list):
            ...
            pred = in_bb * self.mlp(point_local_feat)
            self.intermediate_preds_list.append(pred)
  \<close>
\<close>

fun query_preds ::
  "('img, 'feat, 'cal, 'tr) hgpifu \<Rightarrow> tensor3 \<Rightarrow> tensor3 \<Rightarrow> tensor3 \<Rightarrow> 'feat list
     \<Rightarrow> py_exc + tensor3 list"
where
  "query_preds self xy sp_feat in_bb [] = Inr []"
| "query_preds self xy sp_feat in_bb (im_feat # rest) =
     (case point_local_feat self im_feat xy sp_feat of
        Inl x \<Rightarrow> Inl x
      | Inr feat \<Rightarrow>
          (case mlp self feat of
             Inl x \<Rightarrow> Inl x
           | Inr out \<Rightarrow>
               (case tmul in_bb out of
                  Inl x \<Rightarrow> Inl x
                | Inr pred \<Rightarrow>
                    (case query_preds self xy sp_feat in_bb rest of
                       Inl x \<Rightarrow> Inl x
                     | Inr more_preds \<Rightarrow> Inr (pred # more_preds)))))"

text \<open>
  \<^verbatim>\<open>
    def query(self, points, calibs, transforms=None, labels=None):
        xyz = self.projection(points, calibs, transforms)
        xy = xyz[:, :2, :]
        ... in_bb ...
        if labels is not None:
            self.labels = in_bb * labels
        sp_feat = self.spatial_enc(xyz, calibs=calibs)
        self.intermediate_preds_list = []
        for ...
        self.preds = self.intermediate_preds_list[-1]
  \<close>
\<close>

definition HGPIFuNet_query ::
  "('img, 'feat, 'cal, 'tr) hgpifu \<Rightarrow> tensor3 \<Rightarrow> 'cal \<Rightarrow> 'tr option \<Rightarrow> tensor3 option
     \<Rightarrow> py_exc + ('img, 'feat, 'cal, 'tr) hgpifu"
where
  "HGPIFuNet_query self points calibs transforms labels =
     (case projection self points calibs transforms of
        Inl x \<Rightarrow> Inl x
      | Inr xyz \<Rightarrow>
          (let xy = take_channels 2 xyz
           in case in_bb_of xyz of
                Inl x \<Rightarrow> Inl x
              | Inr in_bb \<Rightarrow>
                  (case (case labels of
                           None \<Rightarrow> Inr (self_labels self)
                         | Some l \<Rightarrow>
                             (case tmul in_bb l of Inl x \<Rightarrow> Inl x | Inr m \<Rightarrow> Inr (Some m))) of
                     Inl x \<Rightarrow> Inl x
                   | Inr new_labels \<Rightarrow>
                       (case spatial_enc self xyz calibs of
                          Inl x \<Rightarrow> Inl x
                        | Inr sp_feat \<Rightarrow>
                            (case query_preds self xy sp_feat in_bb (im_feat_list self) of
                               Inl x \<Rightarrow> Inl x
                             | Inr preds_list \<Rightarrow>
                                 if preds_list = []
                                 then Inl (Raised IndexError ''list index out of range'')
                                 else Inr (self\<lparr>self_labels := new_labels,
                                                intermediate_preds_list := preds_list,
                                                preds := Some (last preds_list)\<rparr>))))))"

subsection \<open>calc\_normal\<close>

text \<open>
  \<^verbatim>\<open>
        pdx = points.clone()
        pdx[:,0,:] += delta
        pdy = points.clone()
        pdy[:,1,:] += delta
        pdz = points.clone()
        pdz[:,2,:] += delta
        ...
        points_all = torch.stack([points, pdx, pdy, pdz], 3)
        points_all = points_all.view(*points.size()[:2],-1)
  \<close>
  Column \<open>4 * n + k\<close> of \<^verbatim>\<open>points_all\<close> is column \<open>n\<close> of the \<open>k\<close>-th stacked tensor:
  \<open>points\<close> for \<open>k = 0\<close>, and \<open>points\<close> with \<open>delta\<close> added to channel \<open>k - 1\<close> for
  \<open>k = 1, 2, 3\<close>. Fewer than three channels raise at the indexed assignment; \<^verbatim>\<open>view\<close>
  cannot infer the \<open>-1\<close> of an empty batch.
\<close>

definition points_all_of :: "tensor3 \<Rightarrow> real \<Rightarrow> py_exc + tensor3" where
  "points_all_of points delta =
     (case dims points of
        (B, C, N) \<Rightarrow>
          if C < 3 then Inl (Raised IndexError ''index out of bounds for dimension 1'')
          else if B = 0 then Inl (Raised RuntimeError ''cannot reshape tensor of 0 elements'')
          else Inr \<lparr>dims = (B, C, 4 * N),
                    elem = (\<lambda>b c m. elem points b c (m div 4)
                                     + (if m mod 4 = c + 1 then delta else 0))\<rparr>)"

text \<open>
  \<^verbatim>\<open>
        pred = pred.view(*pred.size()[:2],-1,4) # (B, 1, N, 4)
        dfdx = pred[:,:,:,1] - pred[:,:,:,0]
        dfdy = pred[:,:,:,2] - pred[:,:,:,0]
        dfdz = pred[:,:,:,3] - pred[:,:,:,0]
        nml = -torch.cat([dfdx,dfdy,dfdz], 1)
  \<close>
  \<open>pred[b, c, n, k]\<close> of the view is \<open>pred[b, c, 4 * n + k]\<close>. The view needs a last size
  that is a multiple of 4, and cannot infer the \<open>-1\<close> of a tensor with no rows.
\<close>

definition neg_differences :: "tensor3 \<Rightarrow> py_exc + tensor3" where
  "neg_differences pred =
     (case dims pred of
        (B, C, M) \<Rightarrow>
          if B * C = 0 \<or> M mod 4 \<noteq> 0
          then Inl (Raised RuntimeError ''shape is invalid for input size'')
          else Inr \<lparr>dims = (B, 3 * C, M div 4),
                    elem = (\<lambda>b c n. - (elem pred b (c mod C) (4 * n + c div C + 1)
                                        - elem pred b (c mod C) (4 * n)))\<rparr>)"

text \<open>\<^verbatim>\<open>pred[:,:,:,0]\<close> of the same view.\<close>

definition surface_of :: "tensor3 \<Rightarrow> tensor3" where
  "surface_of pred =
     (case dims pred of
        (B, C, M) \<Rightarrow> \<lparr>dims = (B, C, M div 4), elem = (\<lambda>b c n. elem pred b c (4 * n))\<rparr>)"

text \<open>
  \<^verbatim>\<open>
        xyz = self.projection(points_all, calibs, transforms)
        xy = xyz[:, :2, :]
        im_feat = self.im_feat_list[-1]
        sp_feat = self.spatial_enc(xyz, calibs=calibs)
        ... point_local_feat ...
        pred = self.mlp(point_local_feat)
  \<close>
  The occupancy network evaluated at the columns of a tensor of points.
\<close>

definition predict ::
  "('img, 'feat, 'cal, 'tr) hgpifu \<Rightarrow> tensor3 \<Rightarrow> 'cal \<Rightarrow> 'tr option \<Rightarrow> py_exc + tensor3"
where
  "predict self points_all calibs transforms =
     (case projection self points_all calibs transforms of
        Inl x \<Rightarrow> Inl x
      | Inr xyz \<Rightarrow>
          (let xy = take_channels 2 xyz
           in if im_feat_list self = [] then Inl (Raised IndexError ''list index out of range'')
              else (let im_feat = last (im_feat_list self)
                    in case spatial_enc self xyz calibs of
                         Inl x \<Rightarrow> Inl x
                       | Inr sp_feat \<Rightarrow>
                           (case point_local_feat self im_feat xy sp_feat of
                              Inl x \<Rightarrow> Inl x
                            | Inr feat \<Rightarrow> mlp self feat))))"

text \<open>
  \<^verbatim>\<open>
    def calc_normal(self, points, calibs, transforms=None, labels=None, delta=0.1, fd_type='forward'):
        ...
        if labels is not None:
            self.labels_nml = labels
        ...
        nml = F.normalize(nml, dim=1, eps=1e-8)
        self.nmls = nml
        self.preds_surface = pred[:,:,:,0]
  \<close>
  \<^verbatim>\<open>fd_type\<close> is not read by the method.
\<close>

definition HGPIFuNet_calc_normal ::
  "('img, 'feat, 'cal, 'tr) hgpifu \<Rightarrow> tensor3 \<Rightarrow> 'cal \<Rightarrow> 'tr option \<Rightarrow> tensor3 option
     \<Rightarrow> real option \<Rightarrow> string option \<Rightarrow> py_exc + ('img, 'feat, 'cal, 'tr) hgpifu"
where
  "HGPIFuNet_calc_normal self points calibs transforms labels delta fd_type =
     (let delta = (case delta of None \<Rightarrow> 0.1 | Some d \<Rightarrow> d);
          fd_type = (case fd_type of None \<Rightarrow> ''forward'' | Some f \<Rightarrow> f)
      in case points_all_of points delta of
           Inl x \<Rightarrow> Inl x
         | Inr points_all \<Rightarrow>
             (let new_labels_nml = (case labels of None \<Rightarrow> self_labels_nml self | Some l \<Rightarrow> Some l)
              in case predict self points_all calibs transforms of
                   Inl x \<Rightarrow> Inl x
                 | Inr pred \<Rightarrow>
                     (case neg_differences pred of
                        Inl x \<Rightarrow> Inl x
                      | Inr nml \<Rightarrow>
                          Inr (self\<lparr>self_labels_nml := new_labels_nml,
                                    nmls := Some (normalize (1 / 10 ^ 8) nml),
                                    preds_surface := Some (surface_of pred)\<rparr>))))"

subsection \<open>The finite difference of the spec, and a small network\<close>

text \<open>
  The vector the spec describes for point \<open>n\<close> of batch \<open>b\<close>: component \<open>k\<close> is
  \<open>- (f(p + delta * e\<^sub>k) - f(p))\<close>, where \<open>f(p)\<close> is column \<open>4 * n\<close> of the single-channel
  prediction and \<open>f(p + delta * e\<^sub>k)\<close> is column \<open>4 * n + k + 1\<close>.
\<close>

definition forward_difference :: "tensor3 \<Rightarrow> nat \<Rightarrow> nat \<Rightarrow> nat \<Rightarrow> real" where
  "forward_difference pred b n k = - (elem pred b 0 (4 * n + k + 1) - elem pred b 0 (4 * n))"

text \<open>
  A network to run the methods on: the projection is the identity, the image filter has
  two stacks, the sampled feature is \<open>xy\<close> itself, the spatial encoding is the depth, and
  the layers of the MLP return the \<open>x\<close> coordinate. \<open>flat_layers\<close> is a network that
  returns the same occupancy everywhere.
\<close>

definition demo_layers :: "tensor3 \<Rightarrow> py_exc + tensor3" where
  "demo_layers feat =
     Inr \<lparr>dims = (fst (dims feat), 1, snd (snd (dims feat))), elem = (\<lambda>b c n. elem feat b 0 n)\<rparr>"

definition flat_layers :: "tensor3 \<Rightarrow> py_exc + tensor3" where
  "flat_layers feat =
     Inr \<lparr>dims = (fst (dims feat), 1, snd (snd (dims feat))), elem = (\<lambda>b c n. 1 / 2)\<rparr>"

definition demo_hg :: "(nat, nat, unit, unit) hgpifu" where
  "demo_hg =
     \<lparr>sp_enc_type = ''z'', sp_no_pifu = False, training = True,
      projection = (\<lambda>pts cal tr. Inr pts),
      image_filter = (\<lambda>images. Inr ([images, Suc images], images)),
      spatial_enc_filter = (\<lambda>images. Inr (\<lambda>xyz cal. Inr xyz)),
      spatial_enc = (\<lambda>xyz cal. Inr \<lparr>dims = (fst (dims xyz), 1, snd (snd (dims xyz))),
                                     elem = (\<lambda>b c n. elem xyz b 2 n)\<rparr>),
      index = (\<lambda>feat xy. Inr xy),
      mlp = MLP demo_layers Sigmoid,
      im_feat_list = [], normx = None, intermediate_preds_list = [], preds = None,
      self_labels = None, self_labels_nml = None, nmls = None, preds_surface = None\<rparr>"

definition demo_filtered :: "(nat, nat, unit, unit) hgpifu" where
  "demo_filtered = (eval_mode demo_hg)\<lparr>im_feat_list := [8], normx := Some 7\<rparr>"

definition demo_points :: tensor3 where
  "demo_points = \<lparr>dims = (1, 3, 2), elem = (\<lambda>b c n. if c = 0 \<and> n = 1 then 2 else 0)\<rparr>"

definition demo_point :: tensor3 where
  "demo_point = \<lparr>dims = (1, 3, 1), elem = (\<lambda>b c n. 0)\<rparr>"

section \<open>The test loop stays inside the dataset\<close>

lemma test_loop_accessed:
  "i \<in> set (fst (test_loop body test_dataset is w)) \<Longrightarrow> i \<in> set is \<and> i < int (length test_dataset)"
proof (induction "is" arbitrary: w)
  case Nil
  then show ?case by simp
next
  case (Cons j rest)
  show ?case
  proof (cases "j \<ge> int (length test_dataset)")
    case True
    with Cons.prems show ?thesis by simp
  next
    case False
    note small = this
    show ?thesis
    proof (cases "getitem test_dataset j")
      case (Inl e)
      with Cons.prems small show ?thesis by simp
    next
      case (Inr d)
      note item = this
      show ?thesis
      proof (cases "body j d w")
        case (Inl e)
        with Cons.prems small item show ?thesis by simp
      next
        case (Inr w')
        obtain acc r where rec: "test_loop body test_dataset rest w' = (acc, r)"
          by (cases "test_loop body test_dataset rest w'")
        from Cons.prems small item Inr rec have "i = j \<or> i \<in> set acc"
          by simp
        then show ?thesis
        proof
          assume "i = j"
          with small show ?thesis by simp
        next
          assume "i \<in> set acc"
          with rec have "i \<in> set (fst (test_loop body test_dataset rest w'))" by simp
          from Cons.IH [OF this] show ?thesis by simp
        qed
      qed
    qed
  qed
qed

text \<open>
  When neither the access nor the body raises, the loop visits exactly the indices of the
  range below the length of the dataset: the bound of the safety theorem is reached.
\<close>

lemma test_loop_total:
  assumes "\<And>i d w. \<exists>w'. body i d w = Inr w'"
      and "\<forall>i \<in> set is. 0 \<le> i"
      and "sorted is"
  shows "fst (test_loop body test_dataset is w) = filter (\<lambda>i. i < int (length test_dataset)) is"
  using assms(2,3)
proof (induction "is" arbitrary: w)
  case Nil
  then show ?case by simp
next
  case (Cons j rest)
  show ?case
  proof (cases "j \<ge> int (length test_dataset)")
    case True
    from Cons.prems(2) have "\<forall>k \<in> set rest. j \<le> k" by simp
    with True have "filter (\<lambda>i. i < int (length test_dataset)) rest = []"
      by (auto simp: filter_empty_conv)
    with True show ?thesis by simp
  next
    case False
    from Cons.prems(1) have nonneg: "0 \<le> j" by simp
    with False obtain d where item: "getitem test_dataset j = Inr d"
      by (simp add: getitem_def)
    from assms(1) obtain w' where step: "body j d w = Inr w'" by blast
    have "fst (test_loop body test_dataset rest w')
            = filter (\<lambda>i. i < int (length test_dataset)) rest"
      using Cons.prems by (intro Cons.IH) simp_all
    with False item step show ?thesis
      by (auto split: prod.splits)
  qed
qed

text \<open>
  C10. For every \<^verbatim>\<open>start_id\<close> and \<^verbatim>\<open>end_id\<close>, negative sentinels included, every index the
  test loop of recon passes to \<^verbatim>\<open>test_dataset[i]\<close> satisfies \<open>0 \<le> i < len(test_dataset)\<close>,
  whatever the loop body does and also when \<^verbatim>\<open>end_id\<close> exceeds the size of the dataset.
\<close>

theorem recon_test_in_range:
  "i \<in> set (fst (recon_test body test_dataset s_id e_id w))
     \<Longrightarrow> 0 \<le> i \<and> i < int (length test_dataset)"
proof -
  assume acc: "i \<in> set (fst (recon_test body test_dataset s_id e_id w))"
  define s where "s = (if s_id < 0 then 0 else s_id)"
  define e where "e = (if e_id < 0 then int (length test_dataset) else e_id)"
  from acc have "i \<in> set (fst (test_loop body test_dataset (py_range s e) w))"
    by (simp add: recon_test_def s_def e_def Let_def)
  from test_loop_accessed [OF this]
  have "i \<in> set (py_range s e)" and upper: "i < int (length test_dataset)"
    by simp_all
  then have "s \<le> i" by (simp add: py_range_def)
  moreover have "0 \<le> s" by (simp add: s_def)
  ultimately show ?thesis using upper by simp
qed

theorem recon_test_in_range_witness:
  "2 \<in> set (fst (recon_test (\<lambda>i d w. Inr (d # w)) [''a'', ''b'', ''c''] (-1) 7 []))
   \<and> (0::int) \<le> 2 \<and> (2::int) < int (length [''a'', ''b'', ''c''])"
proof -
  have acc: "2 \<in> set (fst (recon_test (\<lambda>i d w. Inr (d # w)) [''a'', ''b'', ''c''] (-1) 7 []))"
    by (simp add: recon_test_def py_range_def getitem_def upto.simps)
  from recon_test_in_range [OF acc] acc show ?thesis by simp
qed

text \<open>
  The module body of submit\_eval.py runs with \<^verbatim>\<open>file_size = 1490\<close> and
  \<^verbatim>\<open>split_size = 1\<close>: both jobs get the negative sentinels. With more jobs the last pair
  ends beyond \<^verbatim>\<open>file_size\<close>, which the \<^verbatim>\<open>break\<close> of the loop absorbs.
\<close>

lemma submit_ids_module: "submit_ids 1490 1 = Inr [(-1, -1), (-1, -1)]"
  by (simp add: submit_ids_def py_range_def upto.simps)

lemma submit_ids_split: "submit_ids 1490 2 = Inr [(0, 745), (745, 1490), (1490, 2235)]"
  by (simp add: submit_ids_def py_range_def upto.simps)

section \<open>The options recon goes on with\<close>

lemma checkpoint_path_opt:
  "snd (checkpoint_path cmd) =
     (if load_netMR_checkpoint_path cmd = None \<and> resume_epoch cmd < 0
      then cmd\<lparr>resume_epoch := 0\<rparr> else cmd)"
  by (simp add: checkpoint_path_def split: option.splits)

lemma checkpoint_path_keeps:
  "dataroot (snd (checkpoint_path cmd)) = dataroot cmd"
  "resolution (snd (checkpoint_path cmd)) = resolution cmd"
  "results_path (snd (checkpoint_path cmd)) = results_path cmd"
  "loadSize (snd (checkpoint_path cmd)) = loadSize cmd"
  by (simp_all add: checkpoint_path_opt)

text \<open>
  C8, as amended. When the loaded checkpoint has an \<^verbatim>\<open>'opt'\<close> entry, recon goes on with
  the checkpoint's options, in which \<^verbatim>\<open>dataroot\<close>, \<^verbatim>\<open>resolution\<close>, \<^verbatim>\<open>results_path\<close> and
  \<^verbatim>\<open>loadSize\<close> have their command-line values and every other field, the fields this
  record does not name included, has the checkpoint's value. When the checkpoint has no
  \<^verbatim>\<open>'opt'\<close> entry, recon goes on with the command-line options, unchanged except that
  \<^verbatim>\<open>resume_epoch\<close> has been set to 0 when no \<^verbatim>\<open>load_netMR_checkpoint_path\<close> was given and
  \<^verbatim>\<open>resume_epoch\<close> was negative.
\<close>

theorem load_checkpoint_options:
  assumes "load_checkpoint path_exists torch_load cmd = Inr (opt', sd', s, e)"
      and "torch_load (fst (checkpoint_path cmd)) = Inr sd"
  shows "case opt_entry sd of
           Some saved \<Rightarrow>
             dataroot opt' = dataroot cmd \<and> resolution opt' = resolution cmd \<and>
             results_path opt' = results_path cmd \<and> loadSize opt' = loadSize cmd \<and>
             load_netMR_checkpoint_path opt' = load_netMR_checkpoint_path saved \<and>
             resume_epoch opt' = resume_epoch saved \<and>
             checkpoints_path opt' = checkpoints_path saved \<and>
             name opt' = name saved \<and> start_id opt' = start_id saved \<and>
             end_id opt' = end_id saved \<and> gpu_id opt' = gpu_id saved \<and>
             netG opt' = netG saved \<and> use_compose opt' = use_compose saved \<and>
             options.more opt' = options.more saved
         | None \<Rightarrow>
             opt' = (if load_netMR_checkpoint_path cmd = None \<and> resume_epoch cmd < 0
                     then cmd\<lparr>resume_epoch := 0\<rparr> else cmd)"
proof -
  obtain p opt1 where cp: "checkpoint_path cmd = (p, opt1)"
    by (cases "checkpoint_path cmd")
  then have opt1: "opt1 = snd (checkpoint_path cmd)" and p: "p = fst (checkpoint_path cmd)"
    by simp_all
  from assms(1) cp have ex: "path_exists p"
    by (simp add: load_checkpoint_def split: if_splits)
  from assms(2) p have ld: "torch_load p = Inr sd" by simp
  show ?thesis
  proof (cases "opt_entry sd")
    case None
    with assms(1) cp ex ld have "opt' = opt1"
      by (simp add: load_checkpoint_def)
    with None opt1 show ?thesis
      by (simp add: checkpoint_path_opt)
  next
    case (Some saved)
    with assms(1) cp ex ld
    have "opt' = saved\<lparr>dataroot := dataroot opt1, resolution := resolution opt1,
                        results_path := results_path opt1, loadSize := loadSize opt1\<rparr>"
      by (simp add: load_checkpoint_def Let_def)
    with Some opt1 show ?thesis
      by (simp add: checkpoint_path_keeps)
  qed
qed

theorem load_checkpoint_options_witness:
  "load_checkpoint (\<lambda>p. True) (\<lambda>p. Inr \<lparr>opt_entry = Some saved_opt\<rparr>) cmd_line
     = Inr (saved_opt\<lparr>dataroot := ''data'', resolution := 512, results_path := ''out'',
                      loadSize := 1024\<rparr>,
            \<lparr>opt_entry = Some (saved_opt\<lparr>dataroot := ''data'', resolution := 512,
                                         results_path := ''out'', loadSize := 1024\<rparr>)\<rparr>,
            -1, -1)
   \<and> dataroot (saved_opt\<lparr>dataroot := ''data'', resolution := 512, results_path := ''out'',
                         loadSize := 1024\<rparr>) = dataroot cmd_line
   \<and> netG (saved_opt\<lparr>dataroot := ''data'', resolution := 512, results_path := ''out'',
                     loadSize := 1024\<rparr>) = ''hg_ablation''"
proof -
  let ?opt = "saved_opt\<lparr>dataroot := ''data'', resolution := 512, results_path := ''out'',
                        loadSize := 1024\<rparr>"
  have run: "load_checkpoint (\<lambda>p. True) (\<lambda>p. Inr \<lparr>opt_entry = Some saved_opt\<rparr>) cmd_line
               = Inr (?opt, \<lparr>opt_entry = Some ?opt\<rparr>, -1, -1)"
    by (simp add: load_checkpoint_def checkpoint_path_def cmd_line_def Let_def)
  have ld: "(\<lambda>p. Inr \<lparr>opt_entry = Some saved_opt\<rparr> :: py_exc + unit state_dict)
              (fst (checkpoint_path cmd_line)) = Inr \<lparr>opt_entry = Some saved_opt\<rparr>"
    by simp
  from load_checkpoint_options [OF run ld] run show ?thesis
    by (simp add: saved_opt_def)
qed

text \<open>
  The claim as the spec states it fails on a command line with no checkpoint path and
  \<^verbatim>\<open>resume_epoch = -1\<close>: the checkpoint found at \<^verbatim>\<open>ckpt/pifuhd_train_latest\<close> has no
  \<^verbatim>\<open>'opt'\<close> entry, and recon goes on with \<^verbatim>\<open>resume_epoch = 0\<close>.
\<close>

theorem load_checkpoint_unchanged_counterexample:
  "load_checkpoint (\<lambda>p. p = ''ckpt/pifuhd_train_latest'') (\<lambda>p. Inr \<lparr>opt_entry = None\<rparr>) cmd_line
     = Inr (cmd_line\<lparr>resume_epoch := 0\<rparr>, \<lparr>opt_entry = None\<rparr>, -1, -1)
   \<and> resume_epoch cmd_line = -1
   \<and> cmd_line\<lparr>resume_epoch := 0\<rparr> \<noteq> cmd_line"
  by (simp add: load_checkpoint_def checkpoint_path_def cmd_line_def)

section \<open>Slices and the colour loop\<close>

lemma slice_bounds_le:
  "slice_bounds n left right = (lo, hi) \<Longrightarrow> lo \<le> hi \<and> hi \<le> n"
  by (auto simp: slice_bounds_def Let_def max_def min_def split: if_splits)

lemma slice_assign_length:
  assumes "slice_assign xs left right rows = Inr ys"
  shows "length ys = length xs"
proof -
  obtain lo hi where b: "slice_bounds (length xs) left right = (lo, hi)"
    by (cases "slice_bounds (length xs) left right")
  from slice_bounds_le [OF b] have "lo \<le> hi" "hi \<le> length xs" by simp_all
  with assms b show ?thesis
    by (auto simp: slice_assign_def split: if_splits)
qed

lemma slice_assign_set:
  assumes "slice_assign xs left right rows = Inr ys"
  shows "set ys \<subseteq> set xs \<union> set rows"
proof -
  obtain lo hi where b: "slice_bounds (length xs) left right = (lo, hi)"
    by (cases "slice_bounds (length xs) left right")
  have "set (take lo xs) \<subseteq> set xs" "set (drop hi xs) \<subseteq> set xs"
    by (auto dest: in_set_takeD in_set_dropD)
  moreover have "length rows = 1 \<Longrightarrow> hd rows \<in> set rows"
    by (cases rows) simp_all
  ultimately show ?thesis using assms b
    by (auto simp: slice_assign_def split: if_splits)
qed

lemma half_unit_color:
  "in_cube v \<Longrightarrow> unit_color (case v of (x, y, z) \<Rightarrow> (x * 0.5 + 0.5, y * 0.5 + 0.5, z * 0.5 + 0.5))"
  by (cases v) (auto simp: in_cube_def unit_color_def)

text \<open>
  The loop keeps the length of the colour array, and keeps every colour in \<open>[0, 1]\<close> when
  the normals it is given have their components in \<open>[-1, 1]\<close>.
\<close>

lemma color_chunks_invariant:
  assumes calc: "\<And>pts nmls. calc pts = Inr nmls \<Longrightarrow> \<forall>v \<in> set nmls. in_cube v"
  shows "color_chunks calc interval verts_tensor is color = Inr color'
           \<Longrightarrow> \<forall>c \<in> set color. unit_color c
           \<Longrightarrow> length color' = length color \<and> (\<forall>c \<in> set color'. unit_color c)"
proof (induction "is" arbitrary: color)
  case Nil
  then show ?case by simp
next
  case (Cons i rest)
  let ?left = "i * interval"
  let ?right = "if i = int (length color) div interval then -1 else (i + 1) * interval"
  from Cons.prems(1) obtain nmls where nmls: "calc (py_slice verts_tensor ?left ?right) = Inr nmls"
    by (auto simp: Let_def split: sum.splits)
  let ?nml = "map (\<lambda>(x, y, z). (x * 0.5 + 0.5, y * 0.5 + 0.5, z * 0.5 + 0.5)) nmls"
  from Cons.prems(1) nmls obtain color1 where
    asg: "slice_assign color ?left ?right ?nml = Inr color1"
    and rest: "color_chunks calc interval verts_tensor rest color1 = Inr color'"
    by (auto simp: Let_def split: sum.splits)
  from calc [OF nmls] have "\<forall>c \<in> set ?nml. unit_color c"
    using half_unit_color by auto
  with slice_assign_set [OF asg] Cons.prems(2) have "\<forall>c \<in> set color1. unit_color c"
    by blast
  from Cons.IH [OF rest this] slice_assign_length [OF asg] show ?case by simp
qed

lemma vertex_colors_invariant:
  assumes "\<And>pts nmls. calc pts = Inr nmls \<Longrightarrow> \<forall>v \<in> set nmls. in_cube v"
      and "vertex_colors calc verts_tensor verts = Inr color"
  shows "length color = length verts \<and> (\<forall>c \<in> set color. unit_color c)"
proof -
  have zero: "\<forall>c \<in> set (replicate (length verts) (0, 0, 0)). unit_color c"
    by (simp add: unit_color_def)
  from assms(2) color_chunks_invariant [OF assms(1) _ zero, of calc] show ?thesis
    by (simp add: vertex_colors_def Let_def)
qed

lemma slice_assign_nth_outside:
  assumes asg: "slice_assign xs left right rows = Inr ys"
      and b: "slice_bounds (length xs) left right = (lo, hi)"
      and k: "hi \<le> k" "k < length xs"
  shows "ys ! k = xs ! k"
proof -
  from slice_bounds_le [OF b] have le: "lo \<le> hi" "hi \<le> length xs" by simp_all
  from asg b obtain mid where ys: "ys = take lo xs @ mid @ drop hi xs"
    and mid: "length mid = hi - lo"
    by (auto simp: slice_assign_def split: if_splits)
  from le k have "length (take lo xs) = lo" by simp
  with le k mid have "ys ! k = drop hi xs ! (k - hi)"
    by (auto simp: ys nth_append)
  with le k show ?thesis by simp
qed

text \<open>
  The last chunk of the loop ends at \<^verbatim>\<open>right = -1\<close>, that is at index \<open>len - 1\<close>, and
  every other chunk ends at a multiple of the interval no larger than \<open>len\<close>. Unless
  \<open>len\<close> is a multiple of the interval, no chunk reaches the last index.
\<close>

lemma chunk_bounds_below_last:
  assumes I: "0 < interval"
      and rem: "int n mod interval \<noteq> 0"
      and i: "0 \<le> i" "i \<le> int n div interval"
      and b: "slice_bounds n (i * interval)
                (if i = int n div interval then -1 else (i + 1) * interval) = (lo, hi)"
  shows "hi \<le> n - 1 \<and> 0 < n"
proof -
  from rem have n: "0 < n" by (cases n) simp_all
  have q: "(int n div interval) * interval = int n - int n mod interval"
    by (simp add: algebra_simps div_mult_mod_eq [symmetric])
  from I have "0 \<le> int n mod interval" by simp
  with rem have pos: "0 < int n mod interval" by simp
  from i I have li: "i * interval \<le> (int n div interval) * interval"
    by (simp add: mult_right_mono)
  with q pos have left: "i * interval \<le> int n - 1" by simp
  from i I have left0: "0 \<le> i * interval" by simp
  show ?thesis
  proof (cases "i = int n div interval")
    case True
    with b left left0 n have "hi = n - 1"
      by (auto simp: slice_bounds_def Let_def max_def min_def split: if_splits)
    with n show ?thesis by simp
  next
    case False
    with i have "i + 1 \<le> int n div interval" by simp
    with I have "(i + 1) * interval \<le> (int n div interval) * interval"
      by (simp only: mult_right_mono)
    with q pos have right: "(i + 1) * interval \<le> int n - 1" by simp
    from i I have "0 \<le> (i + 1) * interval" by simp
    with False b left left0 right n have "int hi \<le> int n - 1"
      by (auto simp: slice_bounds_def Let_def max_def min_def split: if_splits)
    with n show ?thesis by simp
  qed
qed

lemma color_chunks_last:
  assumes I: "0 < interval"
  shows "color_chunks calc interval verts_tensor is color = Inr color'
           \<Longrightarrow> int (length color) mod interval \<noteq> 0
           \<Longrightarrow> \<forall>i \<in> set is. 0 \<le> i \<and> i \<le> int (length color) div interval
           \<Longrightarrow> length color' = length color
               \<and> color' ! (length color - 1) = color ! (length color - 1)"
proof (induction "is" arbitrary: color)
  case Nil
  then show ?case by simp
next
  case (Cons i rest)
  let ?left = "i * interval"
  let ?right = "if i = int (length color) div interval then -1 else (i + 1) * interval"
  from Cons.prems(1) obtain nmls where nmls: "calc (py_slice verts_tensor ?left ?right) = Inr nmls"
    by (auto simp: Let_def split: sum.splits)
  let ?nml = "map (\<lambda>(x, y, z). (x * 0.5 + 0.5, y * 0.5 + 0.5, z * 0.5 + 0.5)) nmls"
  from Cons.prems(1) nmls obtain color1 where
    asg: "slice_assign color ?left ?right ?nml = Inr color1"
    and rest: "color_chunks calc interval verts_tensor rest color1 = Inr color'"
    by (auto simp: Let_def split: sum.splits)
  have len: "length color1 = length color" by (rule slice_assign_length [OF asg])
  obtain lo hi where b: "slice_bounds (length color) ?left ?right = (lo, hi)"
    by (cases "slice_bounds (length color) ?left ?right")
  from Cons.prems(3) have i: "0 \<le> i" "i \<le> int (length color) div interval" by simp_all
  from chunk_bounds_below_last [OF I Cons.prems(2) i b]
  have hi: "hi \<le> length color - 1" and n: "0 < length color" by simp_all
  then have "length color - 1 < length color" by simp
  from slice_assign_nth_outside [OF asg b hi this]
  have keep: "color1 ! (length color - 1) = color ! (length color - 1)" .
  from Cons.prems(2,3) len
  have "int (length color1) mod interval \<noteq> 0"
    and "\<forall>i \<in> set rest. 0 \<le> i \<and> i \<le> int (length color1) div interval"
    by simp_all
  from Cons.IH [OF rest this] len keep show ?case by simp
qed

lemma vertex_colors_last_stays_zero:
  assumes "vertex_colors calc verts_tensor verts = Inr color"
      and "length verts mod 100000 \<noteq> 0"
  shows "length color = length verts \<and> color ! (length verts - 1) = (0, 0, 0)"
proof -
  let ?zero = "replicate (length verts) (0, 0, 0) :: vec3 list"
  have I: "(0::int) < 100000" by simp
  from assms(1) have run: "color_chunks calc 100000 verts_tensor
        (py_range 0 (int (length ?zero) div 100000 + 1)) ?zero = Inr color"
    by (simp add: vertex_colors_def Let_def)
  have "int (length verts mod 100000) = int (length verts) mod 100000"
    by (simp add: of_nat_mod)
  with assms(2) have rem: "int (length ?zero) mod 100000 \<noteq> 0"
    by simp
  have rng: "\<forall>i \<in> set (py_range 0 (int (length ?zero) div 100000 + 1)).
               0 \<le> i \<and> i \<le> int (length ?zero) div 100000"
    by (simp add: py_range_def)
  from assms(2) have "0 < length verts" by (cases verts) simp_all
  with color_chunks_last [OF I run rem rng] show ?thesis by simp
qed

text \<open>
  What the loop does reach. When \<^verbatim>\<open>calc_normal\<close> returns one normal per point, the normal
  of that point, every vertex but the last gets the colour of its own normal: chunk \<open>j\<close>
  is assigned rows \<open>j * interval\<close> up to \<open>(j + 1) * interval\<close>, the last chunk up to
  \<open>len - 1\<close>, and no later chunk overwrites an earlier one.
\<close>

lemma mapped_normal_fun:
  "(\<lambda>(x, y, z). (x * 0.5 + 0.5, y * 0.5 + 0.5, z * 0.5 + 0.5)) = mapped_normal"
  by (rule ext) (simp add: mapped_normal_def)

lemma to_world_length:
  "to_world e cw verts = Inr verts' \<Longrightarrow> length verts' = length verts"
  by (auto simp: to_world_def split: sum.splits if_splits)

lemma div_mult_bounds:
  assumes "0 < (i::int)"
  shows "(a div i) * i \<le> a" and "a < (a div i + 1) * i"
proof -
  have e: "(a div i) * i + a mod i = a" by (rule div_mult_mod_eq)
  from assms have m: "0 \<le> a mod i" "a mod i < i" by simp_all
  from e m show "(a div i) * i \<le> a" by linarith
  have "(a div i + 1) * i = (a div i) * i + i" by (simp add: distrib_right)
  with e m show "a < (a div i + 1) * i" by linarith
qed

lemma chunk_cover:
  assumes I: "0 < interval" and j: "0 \<le> j" "j \<le> int n div interval"
      and b: "slice_bounds n (j * interval)
                (if j = int n div interval then -1 else (j + 1) * interval) = (lo, hi)"
  shows "int lo = j * interval" and "lo \<le> hi" and "hi \<le> n"
    and "\<And>k. int k < (j + 1) * interval \<Longrightarrow> k + 1 < n \<Longrightarrow> k < hi"
proof -
  from I have q: "(int n div interval) * interval \<le> int n"
    by (rule div_mult_bounds)
  from j I have "j * interval \<le> (int n div interval) * interval"
    by (simp add: mult_right_mono)
  with q have le: "j * interval \<le> int n" by simp
  from j I have nn: "0 \<le> j * interval" by simp
  from b le nn show lo: "int lo = j * interval"
    by (auto simp: slice_bounds_def Let_def max_def min_def split: if_splits)
  from slice_bounds_le [OF b] show "lo \<le> hi" and "hi \<le> n" by simp_all
  fix k assume k: "int k < (j + 1) * interval" "k + 1 < n"
  show "k < hi"
  proof (cases "j = int n div interval")
    case True
    with b le nn have "int hi = max (j * interval) (max (int n - 1) 0)"
      by (auto simp: slice_bounds_def Let_def max_def min_def split: if_splits)
    with k(2) show ?thesis by (simp add: max_def split: if_splits)
  next
    case False
    with j have "j + 1 \<le> int n div interval" by simp
    with I have "(j + 1) * interval \<le> (int n div interval) * interval"
      by (simp only: mult_right_mono)
    with q have r: "(j + 1) * interval \<le> int n" by simp
    from j I have "0 \<le> (j + 1) * interval" by simp
    with False b le nn r have "int hi = max (j * interval) ((j + 1) * interval)"
      by (auto simp: slice_bounds_def Let_def max_def min_def split: if_splits)
    with k(1) show ?thesis by (simp add: max_def split: if_splits)
  qed
qed

lemma color_chunks_mapped:
  assumes I: "0 < interval"
      and calc: "\<And>pts ns. calc pts = Inr ns \<Longrightarrow> ns = map nrm pts"
      and len: "length verts_tensor = n"
  shows "color_chunks calc interval verts_tensor [j..int n div interval] color = Inr color'
           \<Longrightarrow> 0 \<le> j \<Longrightarrow> length color = n
           \<Longrightarrow> \<forall>k. int k < j * interval \<and> k + 1 < n
                    \<longrightarrow> color ! k = mapped_normal (nrm (verts_tensor ! k))
           \<Longrightarrow> \<forall>k. k + 1 < n \<longrightarrow> color' ! k = mapped_normal (nrm (verts_tensor ! k))"
proof (induction "nat (int n div interval + 1 - j)" arbitrary: j color)
  case 0
  then have big: "int n div interval + 1 \<le> j" by simp
  then have "[j..int n div interval] = []" by simp
  with "0.prems"(1) have same: "color' = color" by simp
  from I have "int n < (int n div interval + 1) * interval"
    by (rule div_mult_bounds)
  moreover from big I have "(int n div interval + 1) * interval \<le> j * interval"
    by (simp only: mult_right_mono)
  ultimately have "int n < j * interval" by simp
  with "0.prems"(4) same show ?case by auto
next
  case (Suc m)
  let ?q = "int n div interval"
  from Suc.hyps(2) have jq: "j \<le> ?q" by simp
  then have lst: "[j..?q] = j # [j + 1..?q]" by (simp add: upto.simps)
  let ?left = "j * interval"
  let ?right = "if j = ?q then -1 else (j + 1) * interval"
  obtain lo hi where b: "slice_bounds n ?left ?right = (lo, hi)"
    by (cases "slice_bounds n ?left ?right")
  note cov = chunk_cover [OF I Suc.prems(2) jq b]
  let ?chunk = "take (hi - lo) (drop lo verts_tensor)"
  have chunk: "py_slice verts_tensor ?left ?right = ?chunk"
    using b len by (simp add: py_slice_def)
  have step: "color_chunks calc interval verts_tensor (j # [j + 1..?q]) color
      = (case calc (py_slice verts_tensor ?left ?right) of
           Inl x \<Rightarrow> Inl x
         | Inr ns \<Rightarrow>
             (case slice_assign color ?left ?right (map mapped_normal ns) of
                Inl x \<Rightarrow> Inl x
              | Inr color1 \<Rightarrow> color_chunks calc interval verts_tensor [j + 1..?q] color1))"
    by (simp only: color_chunks.simps Let_def mapped_normal_fun Suc.prems(3))
  from Suc.prems(1) lst step chunk obtain ns where
    ns: "calc ?chunk = Inr ns"
    by (auto split: sum.splits)
  from calc [OF ns] have ns_eq: "ns = map nrm ?chunk" .
  let ?nml = "map mapped_normal ns"
  from Suc.prems(1) lst step chunk ns obtain color1 where
    asg: "slice_assign color ?left ?right ?nml = Inr color1"
    and rest: "color_chunks calc interval verts_tensor [j + 1..?q] color1 = Inr color'"
    by (auto split: sum.splits)
  from cov(2,3) len have clen: "length ?chunk = hi - lo" by simp
  then have nlen: "length ?nml = hi - lo" by (simp add: ns_eq)
  from asg b Suc.prems(3) nlen have c1: "color1 = take lo color @ ?nml @ drop hi color"
    by (simp add: slice_assign_def)
  have len1: "length color1 = n"
    using slice_assign_length [OF asg] Suc.prems(3) by simp
  have inv: "\<forall>k. int k < (j + 1) * interval \<and> k + 1 < n
               \<longrightarrow> color1 ! k = mapped_normal (nrm (verts_tensor ! k))"
  proof (intro allI impI)
    fix k assume k: "int k < (j + 1) * interval \<and> k + 1 < n"
    then have khi: "k < hi" using cov(4) by simp
    from cov(2,3) Suc.prems(3) have tl: "length (take lo color) = lo" by simp
    show "color1 ! k = mapped_normal (nrm (verts_tensor ! k))"
    proof (cases "k < lo")
      case True
      with tl have "color1 ! k = color ! k" by (simp add: c1 nth_append)
      moreover from True cov(1) have "int k < j * interval" by simp
      ultimately show ?thesis using Suc.prems(4) k by simp
    next
      case False
      with khi have r: "k - lo < hi - lo" by simp
      from False tl nlen r have "color1 ! k = ?nml ! (k - lo)"
        by (simp add: c1 nth_append)
      also from r nlen have "\<dots> = mapped_normal (ns ! (k - lo))" by simp
      also from r clen have "ns ! (k - lo) = nrm (?chunk ! (k - lo))"
        by (simp add: ns_eq)
      also from r False cov(3) len have "?chunk ! (k - lo) = verts_tensor ! k" by simp
      finally show ?thesis .
    qed
  qed
  from Suc.hyps(2) have m: "m = nat (?q + 1 - (j + 1))" by simp
  from Suc.prems(2) have "0 \<le> j + 1" by simp
  from Suc.hyps(1) [OF m rest this len1 inv] show ?case .
qed

lemma vertex_colors_mapped:
  assumes calc: "\<And>pts ns. calc pts = Inr ns \<Longrightarrow> ns = map nrm pts"
      and len: "length verts_tensor = length verts"
      and run: "vertex_colors calc verts_tensor verts = Inr color"
  shows "\<forall>k. k + 1 < length verts \<longrightarrow> color ! k = mapped_normal (nrm (verts_tensor ! k))"
proof -
  let ?n = "length verts"
  let ?zero = "replicate ?n (0, 0, 0) :: vec3 list"
  have I: "(0::int) < 100000" by simp
  from run have r: "color_chunks calc 100000 verts_tensor [0..int ?n div 100000] ?zero = Inr color"
    by (simp add: vertex_colors_def Let_def py_range_def)
  have start: "\<forall>k. int k < 0 * 100000 \<and> k + 1 < ?n
                 \<longrightarrow> ?zero ! k = mapped_normal (nrm (verts_tensor ! k))"
    by simp
  from color_chunks_mapped [OF I calc len r _ _ start] show ?thesis by simp
qed


lemma three_vertex_colors:
  "vertex_colors (\<lambda>pts. Inr (map (\<lambda>p. (0, 0, 1)) pts)) [a, b, c] [a', b', c']
     = Inr [(1/2, 1/2, 1), (1/2, 1/2, 1), (0, 0, 0)]"
  by (simp add: vertex_colors_def py_range_def upto.simps py_slice_def slice_bounds_def
        slice_assign_def Let_def)

text \<open>
  C5. The claim: the chunked loop covers all vertex indices, so no vertex is left with
  its zero-initialised colour. On a mesh of three vertices, with a network whose normal
  is \<open>(0, 0, 1)\<close> everywhere (colour \<open>(1/2, 1/2, 1)\<close>), the only chunk is \<^verbatim>\<open>[0:-1]\<close>:
  the network is queried at the first two vertices only, and the third vertex keeps the
  colour \<open>(0, 0, 0)\<close>.
\<close>

theorem vertex_colors_last_vertex:
  "py_slice [(0, 0, 0), (1, 0, 0), (0, 1, 0) :: vec3] 0 (-1) = [(0, 0, 0), (1, 0, 0)]
   \<and> vertex_colors (\<lambda>pts. Inr (map (\<lambda>p. (0, 0, 1)) pts))
        [(0, 0, 0), (1, 0, 0), (0, 1, 0)] [(0, 0, 0), (1, 0, 0), (0, 1, 0)]
       = Inr [(1/2, 1/2, 1), (1/2, 1/2, 1), (0, 0, 0)]"
  by (simp add: three_vertex_colors) (simp add: py_slice_def slice_bounds_def)

section \<open>gen\_mesh\<close>

lemma save_images_frame:
  assumes "save_images e save_path imgs w = Inr w1"
  shows "net w1 = net w" and "stdout w1 = stdout w"
    and "reconstruction_calls w1 = reconstruction_calls w"
  using assms
  by (auto simp: save_images_def Let_def split: sum.splits if_splits)

lemma save_obj_frame:
  assumes "save_obj_mesh_with_color cw save_path verts faces color w = Inr w'"
  shows "net w' = net w" and "stdout w' = stdout w"
    and "reconstruction_calls w' = reconstruction_calls w"
    and "files w' save_path
           = Some (Obj (map (\<lambda>(v, c). Vertex v c) (zip verts color) @ map Face faces))"
    and "length verts \<le> length color"
  using assms
  by (auto simp: save_obj_mesh_with_color_def split: if_splits)

text \<open>How the \<^verbatim>\<open>try\<close> block can end.\<close>

lemma gen_mesh_try_cases:
  assumes run: "gen_mesh_try e res data imgs save_path thresh use_octree w = (out, w')"
  obtains
    (images) x where "save_images e save_path imgs w = Inl x" "out = Some x" "w' = w"
  | (later) w1 x where "save_images e save_path imgs w = Inr w1" "out = Some x"
      "w' = w1\<lparr>reconstruction_calls := reconstruction_calls w1 @ [reconstruction_args data res thresh use_octree]\<rparr>"
  | (finished) w1 verts0 faces verts color where
      "save_images e save_path imgs w = Inr w1"
      "reconstruction e (net w1) (reconstruction_args data res thresh use_octree) = Inr (verts0, faces)"
      "(case calib_world data of None \<Rightarrow> Inr verts0 | Some cw \<Rightarrow> to_world e cw verts0)
         = Inr verts"
      "vertex_colors (calc_normal e (net w1) (calib data)) verts0 verts = Inr color"
      "save_obj_mesh_with_color (writable e) save_path verts faces color
         (w1\<lparr>reconstruction_calls := reconstruction_calls w1 @ [reconstruction_args data res thresh use_octree]\<rparr>) = Inr w'"
      "out = None"
proof (cases "save_images e save_path imgs w")
  case (Inl x)
  with run have "out = Some x" "w' = w" by (simp_all add: gen_mesh_try_def)
  with Inl show ?thesis by (rule images)
next
  case (Inr w1)
  let ?w2 = "w1\<lparr>reconstruction_calls := reconstruction_calls w1 @ [reconstruction_args data res thresh use_octree]\<rparr>"
  show ?thesis
  proof (cases "reconstruction e (net w1) (reconstruction_args data res thresh use_octree)")
    case (Inl x)
    with run Inr have "out = Some x" "w' = ?w2"
      by (simp_all add: gen_mesh_try_def Let_def)
    with Inr show ?thesis by (rule later)
  next
    case rec: (Inr vf)
    obtain verts0 faces where vf: "vf = (verts0, faces)" by (cases vf)
    show ?thesis
    proof (cases "case calib_world data of None \<Rightarrow> Inr verts0 | Some cw \<Rightarrow> to_world e cw verts0")
      case (Inl x)
      with run Inr rec vf have "out = Some x" "w' = ?w2"
        by (simp_all add: gen_mesh_try_def Let_def)
      with Inr show ?thesis by (rule later)
    next
      case tw: (Inr verts)
      show ?thesis
      proof (cases "vertex_colors (calc_normal e (net w1) (calib data)) verts0 verts")
        case (Inl x)
        with run Inr rec vf tw have "out = Some x" "w' = ?w2"
          by (simp_all add: gen_mesh_try_def Let_def)
        with Inr show ?thesis by (rule later)
      next
        case col: (Inr color)
        show ?thesis
        proof (cases "save_obj_mesh_with_color (writable e) save_path verts faces color ?w2")
          case (Inl x)
          with run Inr rec vf tw col have "out = Some x" "w' = ?w2"
            by (simp_all add: gen_mesh_try_def Let_def)
          with Inr show ?thesis by (rule later)
        next
          case sv: (Inr w3)
          with run Inr rec vf tw col have "out = None" "w' = w3"
            by (simp_all add: gen_mesh_try_def Let_def)
          with Inr rec vf tw col sv show ?thesis by (intro finished) simp_all
        qed
      qed
    qed
  qed
qed


lemma gen_mesh_try_frame:
  assumes "gen_mesh_try e res data imgs save_path thresh use_octree w = (out, w')"
  shows "net w' = net w" and "stdout w' = stdout w"
  using assms
  by (cases rule: gen_mesh_try_cases;
      simp add: save_images_frame save_obj_frame)+

lemma gen_mesh_try_calls:
  assumes "gen_mesh_try e res data imgs save_path thresh use_octree w = (out, w')"
  shows "\<exists>new. reconstruction_calls w' = reconstruction_calls w @ new \<and> length new \<le> 1
           \<and> (\<forall>a \<in> set new. a = reconstruction_args data res thresh use_octree)"
  using assms
proof (cases rule: gen_mesh_try_cases)
  case (images x)
  then show ?thesis by simp
next
  case (later w1 x)
  then show ?thesis by (simp add: save_images_frame)
next
  case (finished w1 verts0 faces verts color)
  then show ?thesis by (simp add: save_images_frame save_obj_frame)
qed

text \<open>A run of gen\_mesh in which every step succeeds.\<close>

lemmas run_simps =
  gen_mesh_def gen_mesh_try_def save_images_def with_normal_maps_def vertex_colors_def
  save_obj_mesh_with_color_def reconstruction_args_def py_range_def upto.simps py_slice_def
  slice_bounds_def slice_assign_def demo_env_def demo_data_def demo_world_def Let_def

lemma demo_run:
  "gen_mesh demo_env 512 demo_data ''out/a.obj'' None None None demo_world
     = (None,
        \<lparr>net = 1,
         files = [''out/a.png'' \<mapsto> Png 2,
                  ''out/a.obj'' \<mapsto> Obj [Vertex (0, 0, 0) (1/2, 1/2, 1),
                                             Vertex (1, 0, 0) (1/2, 1/2, 1),
                                             Vertex (0, 1, 0) (0, 0, 0),
                                             Face (0, 1, 2)]],
         stdout = [],
         reconstruction_calls = [reconstruction_args demo_data 512 0.5 True]\<rparr>)"
  by (simp add: run_simps)

text \<open>
  C7. Called without a \<^verbatim>\<open>thresh\<close> argument, as recon calls it, gen\_mesh passes the
  threshold 0.5 to every call of \<^verbatim>\<open>reconstruction\<close> it makes (it makes at most one).
\<close>

theorem gen_mesh_default_thresh:
  assumes "gen_mesh e res data save_path None use_octree components w = (out, w')"
  shows "\<exists>new. reconstruction_calls w' = reconstruction_calls w @ new \<and> length new \<le> 1
           \<and> (\<forall>a \<in> set new. arg_thresh a = 0.5)"
proof (cases "filter_global e (img_512 data) (net w)")
  case (Inl x)
  with assms have "w' = w" by (simp add: gen_mesh_def)
  then show ?thesis by simp
next
  case g: (Inr n1)
  show ?thesis
  proof (cases "filter_local e (img data) n1")
    case (Inl x)
    with assms g have "w' = w\<lparr>net := n1\<rparr>" by (simp add: gen_mesh_def)
    then show ?thesis by simp
  next
    case l: (Inr n2)
    let ?uo = "case use_octree of None \<Rightarrow> True | Some b \<Rightarrow> b"
    obtain o2 w2 where blk:
      "gen_mesh_try e res data (with_normal_maps e n2 (img_512 data)) save_path 0.5 ?uo
         (w\<lparr>net := n2\<rparr>) = (o2, w2)"
      by (cases "gen_mesh_try e res data (with_normal_maps e n2 (img_512 data)) save_path 0.5 ?uo
                   (w\<lparr>net := n2\<rparr>)")
    from assms g l blk have "reconstruction_calls w' = reconstruction_calls w2"
      by (auto simp: gen_mesh_def Let_def split: option.splits if_splits)
    moreover have "arg_thresh (reconstruction_args data res 0.5 ?uo) = 0.5"
      by (simp add: reconstruction_args_def)
    ultimately show ?thesis using gen_mesh_try_calls [OF blk]
      by fastforce
  qed
qed

theorem gen_mesh_default_thresh_witness:
  "gen_mesh demo_env 512 demo_data ''out/a.obj'' None None None demo_world
     = (None,
        \<lparr>net = 1,
         files = [''out/a.png'' \<mapsto> Png 2,
                  ''out/a.obj'' \<mapsto> Obj [Vertex (0, 0, 0) (1/2, 1/2, 1),
                                             Vertex (1, 0, 0) (1/2, 1/2, 1),
                                             Vertex (0, 1, 0) (0, 0, 0),
                                             Face (0, 1, 2)]],
         stdout = [],
         reconstruction_calls = [reconstruction_args demo_data 512 0.5 True]\<rparr>)
   \<and> arg_thresh (reconstruction_args demo_data 512 0.5 True) = 0.5"
  using gen_mesh_default_thresh [OF demo_run] demo_run
  by (simp add: demo_world_def)

text \<open>
  C9, as amended. An exception of class \<^verbatim>\<open>Exception\<close> that leaves the \<^verbatim>\<open>try\<close> block
  (image saving, reconstruction, the change of coordinates, normal estimation, colouring,
  mesh serialisation) is caught: gen\_mesh prints its message and returns normally, in
  the state the block left. Exceptions outside that class are not caught.
\<close>

theorem gen_mesh_catches_Exception:
  assumes "filter_global e (img_512 data) (net w) = Inr n1"
      and "filter_local e (img data) n1 = Inr n2"
      and "gen_mesh_try e res data (with_normal_maps e n2 (img_512 data)) save_path
             (case thresh of None \<Rightarrow> 0.5 | Some t \<Rightarrow> t)
             (case use_octree of None \<Rightarrow> True | Some b \<Rightarrow> b) (w\<lparr>net := n2\<rparr>) = (Some x, w2)"
      and "is_Exception x"
  shows "gen_mesh e res data save_path thresh use_octree components w
           = (None, w2\<lparr>stdout := stdout w2 @ [exc_str x]\<rparr>)"
  using assms by (simp add: gen_mesh_def Let_def)

theorem gen_mesh_catches_Exception_witness:
  "gen_mesh (demo_env\<lparr>reconstruction := (\<lambda>n a. Inl (Raised RuntimeError ''CUDA out of memory''))\<rparr>)
      512 demo_data ''out/a.obj'' None None None demo_world
     = (None,
        \<lparr>net = 1,
         files = [''out/a.png'' \<mapsto> Png 2],
         stdout = [''CUDA out of memory''],
         reconstruction_calls = [reconstruction_args demo_data 512 0.5 True]\<rparr>)
   \<and> is_Exception (Raised RuntimeError ''CUDA out of memory'')"
proof -
  let ?e = "demo_env\<lparr>reconstruction := (\<lambda>n a. Inl (Raised RuntimeError ''CUDA out of memory''))\<rparr>"
  let ?w2 = "\<lparr>net = 1, files = [''out/a.png'' \<mapsto> Png (2::nat)], stdout = [],
              reconstruction_calls = [reconstruction_args demo_data 512 0.5 True]\<rparr>
             :: (nat, nat, unit) world"
  have g: "filter_global ?e (img_512 demo_data) (net demo_world) = Inr 1"
    by (simp add: demo_env_def demo_data_def demo_world_def)
  have l: "filter_local ?e (img demo_data) 1 = Inr 1"
    by (simp add: demo_env_def)
  have blk: "gen_mesh_try ?e 512 demo_data (with_normal_maps ?e 1 (img_512 demo_data))
               ''out/a.obj'' (case None of None \<Rightarrow> 0.5 | Some t \<Rightarrow> t)
               (case None of None \<Rightarrow> True | Some b \<Rightarrow> b) (demo_world\<lparr>net := 1\<rparr>)
             = (Some (Raised RuntimeError ''CUDA out of memory''), ?w2)"
    by (simp add: run_simps)
  have exc: "is_Exception (Raised RuntimeError ''CUDA out of memory'')" by simp
  from gen_mesh_catches_Exception [OF g l blk exc, of None] exc show ?thesis by simp
qed

text \<open>
  The claim as the spec states it ("any exception in that block is caught") fails when
  reconstruction raises \<^verbatim>\<open>KeyboardInterrupt\<close>: gen\_mesh propagates it and prints nothing.
\<close>

theorem gen_mesh_interrupt_counterexample:
  "gen_mesh (demo_env\<lparr>reconstruction := (\<lambda>n a. Inl (Raised KeyboardInterrupt ''interrupted''))\<rparr>)
      512 demo_data ''out/a.obj'' None None None demo_world
     = (Some (Raised KeyboardInterrupt ''interrupted''),
        \<lparr>net = 1,
         files = [''out/a.png'' \<mapsto> Png 2],
         stdout = [],
         reconstruction_calls = [reconstruction_args demo_data 512 0.5 True]\<rparr>)"
  by (simp add: run_simps)

text \<open>
  What gen\_mesh propagates was raised by one of the two filter calls before the \<^verbatim>\<open>try\<close>
  block, or is not of class \<^verbatim>\<open>Exception\<close>.
\<close>

lemma gen_mesh_propagates:
  assumes "gen_mesh e res data save_path thresh use_octree components w = (Some x, w')"
  shows "filter_global e (img_512 data) (net w) = Inl x
         \<or> (\<exists>n1. filter_global e (img_512 data) (net w) = Inr n1
                  \<and> filter_local e (img data) n1 = Inl x)
         \<or> \<not> is_Exception x"
  using assms
  by (auto simp: gen_mesh_def Let_def split: sum.splits option.splits prod.splits if_splits)

text \<open>
  So the body of recon's test loop stops the loop only on such an exception: a failure of
  class \<^verbatim>\<open>Exception\<close> inside the \<^verbatim>\<open>try\<close> block of one item lets the loop go on.
\<close>

lemma recon_body_stops:
  assumes "recon_body e opt i test_data w = Inl x"
  shows "filter_global e (img_512 test_data) (net w) = Inl x
         \<or> (\<exists>n1. filter_global e (img_512 test_data) (net w) = Inr n1
                  \<and> filter_local e (img test_data) n1 = Inl x)
         \<or> \<not> is_Exception x"
proof -
  let ?save_path = "results_path opt @ ''/'' @ name opt @ ''/recon/result_''
                      @ data_name test_data @ ''.obj''"
  from assms obtain w' where
    "gen_mesh e (resolution opt) test_data ?save_path None None (Some (use_compose opt)) w
       = (Some x, w')"
    by (auto simp: recon_body_def Let_def split: prod.splits option.splits)
  then show ?thesis by (rule gen_mesh_propagates)
qed

text \<open>
  An exception outside the class \<^verbatim>\<open>Exception\<close> that leaves the \<^verbatim>\<open>try\<close> block is
  propagated by gen\_mesh, and nothing is printed.
\<close>

lemma gen_mesh_propagates_other:
  assumes "filter_global e (img_512 data) (net w) = Inr n1"
      and "filter_local e (img data) n1 = Inr n2"
      and "gen_mesh_try e res data (with_normal_maps e n2 (img_512 data)) save_path
             (case thresh of None \<Rightarrow> 0.5 | Some t \<Rightarrow> t)
             (case use_octree of None \<Rightarrow> True | Some b \<Rightarrow> b) (w\<lparr>net := n2\<rparr>) = (Some x, w2)"
      and "\<not> is_Exception x"
  shows "gen_mesh e res data save_path thresh use_octree components w = (Some x, w2)"
  using assms by (simp add: gen_mesh_def Let_def)

text \<open>
  C6, as amended. When every step of the \<^verbatim>\<open>try\<close> block succeeds (gen\_mesh returns
  normally and has printed no exception), the file at \<^verbatim>\<open>save_path\<close> holds every vertex,
  each with the colour of the same index, and every face of the mesh reconstruction
  returned (the vertices in world coordinates when \<^verbatim>\<open>calib_world\<close> is given); there are as
  many colours as vertices, every colour component is in \<open>[0, 1]\<close>, and the colour of
  every vertex before the last one is the normal of that vertex mapped by
  \<^verbatim>\<open>n * 0.5 + 0.5\<close>. The network's \<^verbatim>\<open>calc_normal\<close> is taken to return, for the points it is
  given, one normal per point with components in \<open>[-1, 1]\<close>.
\<close>

theorem gen_mesh_writes_mesh:
  assumes run: "gen_mesh e res data save_path thresh use_octree components w = (None, w')"
      and quiet: "stdout w' = stdout w"
      and pointwise: "\<And>pts ns. calc_normal e (net w') (calib data) pts = Inr ns
                        \<Longrightarrow> ns = map nrm pts"
      and cube: "\<And>p. in_cube (nrm p)"
  shows "\<exists>verts0 verts faces color.
           reconstruction e (net w')
               (reconstruction_args data res
                  (case thresh of None \<Rightarrow> 0.5 | Some t \<Rightarrow> t)
                  (case use_octree of None \<Rightarrow> True | Some b \<Rightarrow> b))
             = Inr (verts0, faces)
           \<and> (case calib_world data of None \<Rightarrow> Inr verts0
                 | Some cw \<Rightarrow> to_world e cw verts0) = Inr verts
           \<and> files w' save_path
               = Some (Obj (map (\<lambda>(v, c). Vertex v c) (zip verts color) @ map Face faces))
           \<and> length color = length verts
           \<and> (\<forall>c \<in> set color. unit_color c)
           \<and> (\<forall>k. k + 1 < length verts \<longrightarrow> color ! k = mapped_normal (nrm (verts0 ! k)))"
proof -
  let ?th = "case thresh of None \<Rightarrow> 0.5 | Some t \<Rightarrow> t"
  let ?uo = "case use_octree of None \<Rightarrow> True | Some b \<Rightarrow> b"
  from run obtain n1 where g: "filter_global e (img_512 data) (net w) = Inr n1"
    by (cases "filter_global e (img_512 data) (net w)") (simp_all add: gen_mesh_def)
  from run g obtain n2 where l: "filter_local e (img data) n1 = Inr n2"
    by (cases "filter_local e (img data) n1") (simp_all add: gen_mesh_def)
  obtain o2 w2 where blk:
    "gen_mesh_try e res data (with_normal_maps e n2 (img_512 data)) save_path ?th ?uo
       (w\<lparr>net := n2\<rparr>) = (o2, w2)"
    by (cases "gen_mesh_try e res data (with_normal_maps e n2 (img_512 data)) save_path ?th ?uo
                 (w\<lparr>net := n2\<rparr>)")
  have out: "stdout w2 = stdout w" using gen_mesh_try_frame(2) [OF blk] by simp
  have "o2 = None \<and> w' = w2"
  proof (cases o2)
    case None
    with run g l blk show ?thesis by (simp add: gen_mesh_def Let_def)
  next
    case (Some x)
    with run g l blk have "is_Exception x" and "w' = w2\<lparr>stdout := stdout w2 @ [exc_str x]\<rparr>"
      by (auto simp: gen_mesh_def Let_def split: if_splits)
    with quiet out show ?thesis by simp
  qed
  then have ok: "o2 = None" and w': "w' = w2" by simp_all
  from blk ok show ?thesis
  proof (cases rule: gen_mesh_try_cases)
    case (finished w1 verts0 faces verts color)
    have net1: "net w1 = n2" using save_images_frame(1) [OF finished(1)] by simp
    have net2: "net w2 = n2" using gen_mesh_try_frame(1) [OF blk] by simp
    let ?calc = "calc_normal e (net w1) (calib data)"
    have pw: "\<And>pts ns. ?calc pts = Inr ns \<Longrightarrow> ns = map nrm pts"
      using pointwise net1 net2 w' by simp
    have cb: "\<And>pts ns. ?calc pts = Inr ns \<Longrightarrow> \<forall>v \<in> set ns. in_cube v"
    proof -
      fix pts ns assume "?calc pts = Inr ns"
      then have "ns = map nrm pts" by (rule pw)
      with cube show "\<forall>v \<in> set ns. in_cube v" by simp
    qed
    from vertex_colors_invariant [OF cb finished(4)]
    have len: "length color = length verts" and col: "\<forall>c \<in> set color. unit_color c"
      by simp_all
    from finished(3) have same: "length verts0 = length verts"
      by (auto split: option.splits dest: to_world_length)
    from vertex_colors_mapped [OF pw same finished(4)]
    have mapped: "\<forall>k. k + 1 < length verts \<longrightarrow> color ! k = mapped_normal (nrm (verts0 ! k))" .
    from finished(2,3) net1 net2 w'
    have "reconstruction e (net w') (reconstruction_args data res ?th ?uo) = Inr (verts0, faces)
          \<and> (case calib_world data of None \<Rightarrow> Inr verts0 | Some cw \<Rightarrow> to_world e cw verts0)
              = Inr verts"
      by simp
    with save_obj_frame(4) [OF finished(5)] len col mapped w' show ?thesis by blast
  qed simp_all
qed

theorem gen_mesh_writes_mesh_witness:
  "files (snd (gen_mesh demo_env 512 demo_data ''out/a.obj'' None None None demo_world))
      ''out/a.obj''
     = Some (Obj [Vertex (0, 0, 0) (1/2, 1/2, 1), Vertex (1, 0, 0) (1/2, 1/2, 1),
                  Vertex (0, 1, 0) (0, 0, 0), Face (0, 1, 2)])
   \<and> mapped_normal (0, 0, 1) = (1/2, 1/2, 1)
   \<and> (\<exists>verts0 verts faces color.
         files (snd (gen_mesh demo_env 512 demo_data ''out/a.obj'' None None None demo_world))
            ''out/a.obj''
           = Some (Obj (map (\<lambda>(v, c). Vertex v c) (zip verts color) @ map Face faces))
         \<and> length color = length verts \<and> list_all unit_color color
         \<and> list_all (\<lambda>c. c = mapped_normal (0, 0, 1)) (butlast color))"
proof -
  let ?w' = "snd (gen_mesh demo_env 512 demo_data ''out/a.obj'' None None None demo_world)"
  have quiet: "stdout ?w' = stdout demo_world"
    by (simp add: demo_run) (simp add: demo_world_def)
  have pointwise: "\<And>pts ns. calc_normal demo_env (net ?w') (calib demo_data) pts = Inr ns
                     \<Longrightarrow> ns = map (\<lambda>p. (0, 0, 1)) pts"
    by (auto simp: demo_env_def)
  have cube: "\<And>p::vec3. in_cube ((\<lambda>p. (0, 0, 1)) p)"
    by (simp add: in_cube_def)
  have run: "gen_mesh demo_env 512 demo_data ''out/a.obj'' None None None demo_world
               = (None, ?w')"
    by (simp add: demo_run)
  from gen_mesh_writes_mesh [OF run quiet pointwise cube]
  obtain verts0 verts faces color where
    f: "files ?w' ''out/a.obj''
          = Some (Obj (map (\<lambda>(v, c). Vertex v c) (zip verts color) @ map Face faces))"
    and len: "length color = length verts"
    and unit: "\<forall>c \<in> set color. unit_color c"
    and mapped: "\<forall>k. k + 1 < length verts \<longrightarrow> color ! k = mapped_normal (0, 0, 1)"
    by blast
  have "list_all (\<lambda>c. c = mapped_normal (0, 0, 1)) (butlast color)"
    unfolding list_all_length
  proof (intro allI impI)
    fix k assume "k < length (butlast color)"
    with len have k: "k + 1 < length verts" by simp
    then have "butlast color ! k = color ! k" using len by (simp add: nth_butlast)
    with mapped k show "butlast color ! k = mapped_normal (0, 0, 1)" by simp
  qed
  with f len unit have "\<exists>verts0 verts faces color.
         files ?w' ''out/a.obj''
           = Some (Obj (map (\<lambda>(v, c). Vertex v c) (zip verts color) @ map Face faces))
         \<and> length color = length verts \<and> list_all unit_color color
         \<and> list_all (\<lambda>c. c = mapped_normal (0, 0, 1)) (butlast color)"
    unfolding list_all_iff by blast
  moreover have "mapped_normal (0, 0, 1) = (1/2, 1/2, 1)" by (simp add: mapped_normal_def)
  ultimately show ?thesis by (simp add: demo_run)
qed

text \<open>
  The claim as the spec states it (on successful reconstruction the mesh is serialised)
  fails when \<^verbatim>\<open>reconstruction\<close> returns a mesh and \<^verbatim>\<open>calc_normal\<close> then raises: the
  handler prints the exception, gen\_mesh returns normally, and no file is written at
  \<^verbatim>\<open>save_path\<close>.
\<close>

theorem gen_mesh_no_mesh_counterexample:
  "reconstruction demo_env 1 (reconstruction_args demo_data 512 0.5 True)
     = Inr ([(0, 0, 0), (1, 0, 0), (0, 1, 0)], [(0, 1, 2)])
   \<and> gen_mesh (demo_env\<lparr>calc_normal := (\<lambda>n c pts. Inl (Raised RuntimeError ''out of memory''))\<rparr>)
        512 demo_data ''out/a.obj'' None None None demo_world
     = (None,
        \<lparr>net = 1,
         files = [''out/a.png'' \<mapsto> Png 2],
         stdout = [''out of memory''],
         reconstruction_calls = [reconstruction_args demo_data 512 0.5 True]\<rparr>)
   \<and> [''out/a.png'' \<mapsto> Png (2::nat)] ''out/a.obj'' = None"
  by (simp add: run_simps)

section \<open>HGPIFuNet.query\<close>

lemma pick_below: "i < d \<Longrightarrow> pick d i = i"
  by (simp add: pick_def)

lemma tmul_elem:
  assumes "tmul s t = Inr p"
  shows "elem p b c n
           = elem s (pick (fst (dims s)) b) (pick (fst (snd (dims s))) c) (pick (snd (snd (dims s))) n)
             * elem t (pick (fst (dims t)) b) (pick (fst (snd (dims t))) c) (pick (snd (snd (dims t))) n)"
  using assms
  by (auto simp: tmul_def split: prod.splits option.splits)

lemma in_bb_of_dims:
  assumes "in_bb_of xyz = Inr in_bb" and "dims xyz = (B, C, N)"
  shows "dims in_bb = (B, 1, N)"
  using assms by (auto simp: in_bb_of_def split: if_splits)

lemma in_bb_of_outside:
  assumes "in_bb_of xyz = Inr in_bb"
      and "\<exists>k<3. elem xyz b k n < -1 \<or> 1 < elem xyz b k n"
  shows "elem in_bb b c n = 0"
proof -
  from assms(2) obtain k where k: "k < 3" "elem xyz b k n < -1 \<or> 1 < elem xyz b k n"
    by blast
  then have "k = 0 \<or> k = 1 \<or> k = 2" by auto
  with k(2) have "\<not> ((-1 \<le> elem xyz b 0 n \<and> elem xyz b 0 n \<le> 1)
                    \<and> (-1 \<le> elem xyz b 1 n \<and> elem xyz b 1 n \<le> 1)
                    \<and> (-1 \<le> elem xyz b 2 n \<and> elem xyz b 2 n \<le> 1))"
    by auto
  with assms(1) show ?thesis
    by (auto simp: in_bb_of_def split: prod.splits if_splits)
qed

lemma in_bb_of_range:
  assumes "in_bb_of xyz = Inr in_bb"
  shows "elem in_bb b c n = 0 \<or> elem in_bb b c n = 1"
  using assms by (auto simp: in_bb_of_def split: prod.splits if_splits)

lemma tmul_masked:
  assumes "tmul in_bb out = Inr pred" and "dims in_bb = (B, 1, N)"
      and "b < B" "n < N" and "elem in_bb b 0 n = 0"
  shows "elem pred b c n = 0"
  using assms by (simp add: tmul_elem [OF assms(1)] pick_below) (simp add: pick_def)

lemma query_preds_masked:
  assumes "dims in_bb = (B, 1, N)" "b < B" "n < N" "elem in_bb b 0 n = 0"
  shows "query_preds self xy sp_feat in_bb feats = Inr ps
           \<Longrightarrow> \<forall>p \<in> set ps. \<forall>c. elem p b c n = 0"
proof (induction feats arbitrary: ps)
  case Nil
  then show ?case by simp
next
  case (Cons im_feat rest)
  from Cons.prems obtain feat out pred more_preds where
    "mlp self feat = Inr out" and m: "tmul in_bb out = Inr pred"
    and r: "query_preds self xy sp_feat in_bb rest = Inr more_preds"
    and ps: "ps = pred # more_preds"
    by (auto split: sum.splits)
  from tmul_masked [OF m assms] Cons.IH [OF r] ps show ?case by simp
qed

lemma query_preds_length:
  "query_preds self xy sp_feat in_bb feats = Inr ps \<Longrightarrow> length ps = length feats"
  by (induction feats arbitrary: ps) (auto split: sum.splits)

lemma HGPIFuNet_query_cases:
  assumes "HGPIFuNet_query self points calibs transforms labels = Inr self'"
  obtains xyz in_bb sp_feat preds_list where
    "projection self points calibs transforms = Inr xyz"
    "in_bb_of xyz = Inr in_bb"
    "spatial_enc self xyz calibs = Inr sp_feat"
    "query_preds self (take_channels 2 xyz) sp_feat in_bb (im_feat_list self) = Inr preds_list"
    "preds_list \<noteq> []"
    "intermediate_preds_list self' = preds_list"
    "preds self' = Some (last preds_list)"
  using assms
  by (auto simp: HGPIFuNet_query_def Let_def split: sum.splits if_splits)

lemma demo_init:
  "HGPIFuNet_init ''z'' False (\<lambda>pts cal tr. Inr pts) (\<lambda>images. Inr ([images, Suc images], images))
      demo_layers (\<lambda>images. Inr (\<lambda>xyz cal. Inr xyz))
      (\<lambda>xyz cal. Inr \<lparr>dims = (fst (dims xyz), 1, snd (snd (dims xyz))),
                       elem = (\<lambda>b c n. elem xyz b 2 n)\<rparr>)
      (\<lambda>feat xy. Inr xy)
     = Inr demo_hg"
  by (simp add: HGPIFuNet_init_def demo_hg_def)

lemma demo_filter: "HGPIFuNet_filter (eval_mode demo_hg) 7 = Inr demo_filtered"
  by (simp add: HGPIFuNet_filter_def eval_mode_def demo_hg_def demo_filtered_def)

lemmas hg_simps =
  HGPIFuNet_query_def HGPIFuNet_calc_normal_def predict_def point_local_feat_def
  in_bb_of_def take_channels_def tmul_def tcat1_def bdim_def pick_def MLP_def
  points_all_of_def neg_differences_def surface_of_def
  demo_filtered_def demo_hg_def eval_mode_def demo_layers_def flat_layers_def
  demo_points_def demo_point_def Let_def

lemma demo_query:
  "\<exists>self'. HGPIFuNet_query demo_filtered demo_points () None None = Inr self'"
  by (simp add: hg_simps)

text \<open>
  What \<^verbatim>\<open>__init__\<close> and filter establish: the MLP ends in a Sigmoid and stays the same, and
  in evaluation mode a successful filter leaves exactly one feature in the list.
\<close>

lemma HGPIFuNet_init_mlp:
  assumes "HGPIFuNet_init t np proj hgf layers vf enc smp = Inr self"
  shows "mlp self = MLP layers Sigmoid" and "im_feat_list self = []" and "training self"
  using assms by (auto simp: HGPIFuNet_init_def split: if_splits)

lemma HGPIFuNet_filter_mlp:
  assumes "HGPIFuNet_filter self0 images = Inr self"
  shows "mlp self = mlp self0"
  using assms
  by (auto simp: HGPIFuNet_filter_def split: sum.splits prod.splits if_splits)

lemma HGPIFuNet_filter_eval:
  assumes "HGPIFuNet_filter self0 images = Inr self" and "\<not> training self0"
  shows "length (im_feat_list self) = 1"
  using assms
  by (auto simp: HGPIFuNet_filter_def split: sum.splits prod.splits if_splits)

text \<open>
  C1. After filter, for every batch of points that query accepts, a point whose projected
  coordinate has a component strictly outside \<open>[-1, 1]\<close> gets the stored prediction 0 in
  every channel, which is below the iso-value 0.5.
\<close>

theorem HGPIFuNet_query_outside:
  assumes flt: "HGPIFuNet_filter self0 images = Inr self"
      and qry: "HGPIFuNet_query self points calibs transforms labels = Inr self'"
      and prj: "projection self points calibs transforms = Inr xyz"
      and dms: "dims xyz = (B, C, N)"
      and idx: "b < B" "n < N"
      and out: "\<exists>k<3. elem xyz b k n < -1 \<or> 1 < elem xyz b k n"
  shows "\<exists>p. preds self' = Some p \<and> (\<forall>c. elem p b c n = 0 \<and> elem p b c n < 0.5)"
  using qry
proof (cases rule: HGPIFuNet_query_cases)
  case (1 xyz' in_bb sp_feat preds_list)
  with prj have same: "xyz' = xyz" by simp
  from 1(2) same have bb: "in_bb_of xyz = Inr in_bb" by simp
  have d: "dims in_bb = (B, 1, N)" by (rule in_bb_of_dims [OF bb dms])
  have z: "elem in_bb b 0 n = 0" by (rule in_bb_of_outside [OF bb out])
  from query_preds_masked [OF d idx z 1(4)]
  have "\<forall>p \<in> set preds_list. \<forall>c. elem p b c n = 0" .
  moreover from 1(5) have "last preds_list \<in> set preds_list" by simp
  ultimately show ?thesis using 1(7) by simp
qed

theorem HGPIFuNet_query_outside_witness:
  "\<exists>self' p. HGPIFuNet_query demo_filtered demo_points () None None = Inr self'
      \<and> preds self' = Some p \<and> elem demo_points 0 0 1 = 2 \<and> elem p 0 0 1 = 0"
proof -
  from demo_query obtain self' where
    q: "HGPIFuNet_query demo_filtered demo_points () None None = Inr self'" ..
  have prj: "projection demo_filtered demo_points () None = Inr demo_points"
    by (simp add: demo_filtered_def demo_hg_def eval_mode_def)
  have dms: "dims demo_points = (1, 3, 2)" by (simp add: demo_points_def)
  have far: "elem demo_points 0 0 1 = 2" by (simp add: demo_points_def)
  then have out: "\<exists>k<3. elem demo_points 0 k 1 < -1 \<or> 1 < elem demo_points 0 k 1"
    by (intro exI [of _ 0]) simp
  from HGPIFuNet_query_outside [OF demo_filter q prj dms _ _ out]
  obtain p where "preds self' = Some p" "\<forall>c. elem p 0 c 1 = 0" by auto
  with q far show ?thesis by blast
qed

lemma Sigmoid_range: "0 < Sigmoid x \<and> Sigmoid x < 1"
proof -
  have "0 < exp (- x)" by simp
  then show ?thesis by (simp add: Sigmoid_def add_pos_pos)
qed

lemma MLP_Sigmoid_range:
  assumes "MLP layers Sigmoid feat = Inr out"
  shows "0 \<le> elem out b c n \<and> elem out b c n \<le> 1"
proof -
  from assms obtain y where "out = y\<lparr>elem := (\<lambda>b c n. Sigmoid (elem y b c n))\<rparr>"
    by (auto simp: MLP_def split: sum.splits)
  then have "elem out b c n = Sigmoid (elem y b c n)" by simp
  with Sigmoid_range [of "elem y b c n"] show ?thesis by simp
qed

lemma tmul_range:
  assumes "tmul in_bb out = Inr pred"
      and "\<And>b c n. elem in_bb b c n = 0 \<or> elem in_bb b c n = 1"
      and "\<And>b c n. 0 \<le> elem out b c n \<and> elem out b c n \<le> 1"
  shows "0 \<le> elem pred b c n \<and> elem pred b c n \<le> 1"
proof -
  let ?m = "elem in_bb (pick (fst (dims in_bb)) b) (pick (fst (snd (dims in_bb))) c)
              (pick (snd (snd (dims in_bb))) n)"
  let ?v = "elem out (pick (fst (dims out)) b) (pick (fst (snd (dims out))) c)
              (pick (snd (snd (dims out))) n)"
  have e: "elem pred b c n = ?m * ?v" by (rule tmul_elem [OF assms(1)])
  from assms(2) have "?m = 0 \<or> ?m = 1" by blast
  moreover from assms(3) have "0 \<le> ?v \<and> ?v \<le> 1" by blast
  ultimately show ?thesis using e by auto
qed

lemma query_preds_range:
  assumes "mlp self = MLP layers Sigmoid"
      and "\<And>b c n. elem in_bb b c n = 0 \<or> elem in_bb b c n = 1"
  shows "query_preds self xy sp_feat in_bb feats = Inr ps
           \<Longrightarrow> \<forall>p \<in> set ps. \<forall>b c n. 0 \<le> elem p b c n \<and> elem p b c n \<le> 1"
proof (induction feats arbitrary: ps)
  case Nil
  then show ?case by simp
next
  case (Cons im_feat rest)
  from Cons.prems obtain feat out pred more_preds where
    o: "mlp self feat = Inr out" and m: "tmul in_bb out = Inr pred"
    and r: "query_preds self xy sp_feat in_bb rest = Inr more_preds"
    and ps: "ps = pred # more_preds"
    by (auto split: sum.splits)
  from o assms(1) have "\<And>b c n. 0 \<le> elem out b c n \<and> elem out b c n \<le> 1"
    by (simp add: MLP_Sigmoid_range)
  from tmul_range [OF m assms(2) this] Cons.IH [OF r] ps show ?case by simp
qed

text \<open>
  C4. With the MLP that \<^verbatim>\<open>__init__\<close> builds (final Sigmoid), every value query stores, in
  \<^verbatim>\<open>self.preds\<close> and in \<^verbatim>\<open>self.intermediate_preds_list\<close>, lies in \<open>[0, 1]\<close>.
\<close>

theorem HGPIFuNet_query_probability:
  assumes net: "mlp self = MLP layers Sigmoid"
      and qry: "HGPIFuNet_query self points calibs transforms labels = Inr self'"
  shows "\<exists>p. preds self' = Some p \<and> p \<in> set (intermediate_preds_list self')
           \<and> (\<forall>q \<in> set (intermediate_preds_list self').
                 \<forall>b c n. 0 \<le> elem q b c n \<and> elem q b c n \<le> 1)"
  using qry
proof (cases rule: HGPIFuNet_query_cases)
  case (1 xyz in_bb sp_feat preds_list)
  have "\<And>b c n. elem in_bb b c n = 0 \<or> elem in_bb b c n = 1"
    by (rule in_bb_of_range [OF 1(2)])
  from query_preds_range [OF net this 1(4)] 1(5,6,7) show ?thesis by simp
qed


theorem HGPIFuNet_query_probability_witness:
  "\<exists>self' p. HGPIFuNet_query demo_filtered demo_points () None None = Inr self'
      \<and> preds self' = Some p \<and> 0 \<le> elem p 0 0 0 \<and> elem p 0 0 0 \<le> 1"
proof -
  from demo_query obtain self' where
    q: "HGPIFuNet_query demo_filtered demo_points () None None = Inr self'" ..
  have net: "mlp demo_filtered = MLP demo_layers Sigmoid"
    by (simp add: demo_filtered_def demo_hg_def eval_mode_def)
  from HGPIFuNet_query_probability [OF net q]
  obtain p where "preds self' = Some p" "0 \<le> elem p 0 0 0 \<and> elem p 0 0 0 \<le> 1" by blast
  with q show ?thesis by blast
qed


section \<open>HGPIFuNet.calc\_normal\<close>

lemma norm1_nonneg: "0 \<le> norm1 t b n"
  by (simp add: norm1_def sum_nonneg split: prod.splits)

lemma norm1_sq:
  assumes "dims t = (B, C, N)"
  shows "(norm1 t b n)\<^sup>2 = (\<Sum>c<C. (elem t b c n)\<^sup>2)"
  using assms by (simp add: norm1_def sum_nonneg)

lemma normalize_elem:
  "elem (normalize eps t) b c n = elem t b c n / max (norm1 t b n) eps"
  by (simp add: normalize_def)

lemma normalize_dims: "dims (normalize eps t) = dims t"
  by (simp add: normalize_def)

lemma normalize_unit:
  assumes d: "dims t = (B, C, N)" and eps: "0 < eps" and big: "eps \<le> norm1 t b n"
  shows "(\<Sum>c<C. (elem (normalize eps t) b c n)\<^sup>2) = 1"
proof -
  let ?r = "norm1 t b n"
  from eps big have pos: "0 < ?r" by simp
  from big have m: "max ?r eps = ?r" by simp
  have "(\<Sum>c<C. (elem (normalize eps t) b c n)\<^sup>2) = (\<Sum>c<C. (elem t b c n)\<^sup>2 / ?r\<^sup>2)"
    by (simp add: normalize_elem m power_divide)
  also have "\<dots> = (\<Sum>c<C. (elem t b c n)\<^sup>2) / ?r\<^sup>2"
    by (simp add: sum_divide_distrib)
  also have "\<dots> = ?r\<^sup>2 / ?r\<^sup>2"
    by (simp add: norm1_sq [OF d])
  also from pos have "\<dots> = 1" by simp
  finally show ?thesis .
qed

lemma normalize_small:
  assumes d: "dims t = (B, C, N)" and eps: "0 < eps" and small: "norm1 t b n < eps"
  shows "(\<Sum>c<C. (elem (normalize eps t) b c n)\<^sup>2) < 1"
proof -
  let ?r = "norm1 t b n"
  from small have m: "max ?r eps = eps" by simp
  have "(\<Sum>c<C. (elem (normalize eps t) b c n)\<^sup>2) = (\<Sum>c<C. (elem t b c n)\<^sup>2 / eps\<^sup>2)"
    by (simp add: normalize_elem m power_divide)
  also have "\<dots> = (\<Sum>c<C. (elem t b c n)\<^sup>2) / eps\<^sup>2"
    by (simp add: sum_divide_distrib)
  also have "\<dots> = ?r\<^sup>2 / eps\<^sup>2"
    by (simp add: norm1_sq [OF d])
  also have "\<dots> < 1"
  proof -
    from small norm1_nonneg [of t b n] have "?r\<^sup>2 < eps\<^sup>2"
      by (simp add: power_strict_mono)
    with eps show ?thesis by simp
  qed
  finally show ?thesis .
qed

lemma normalize_bounded:
  assumes d: "dims t = (B, C, N)" and eps: "0 < eps" and c: "c < C"
  shows "\<bar>elem (normalize eps t) b c n\<bar> \<le> 1"
proof -
  let ?r = "norm1 t b n"
  have "(elem t b c n)\<^sup>2 \<le> (\<Sum>j<C. (elem t b j n)\<^sup>2)"
    using c by (intro member_le_sum) simp_all
  then have "sqrt ((elem t b c n)\<^sup>2) \<le> sqrt (\<Sum>j<C. (elem t b j n)\<^sup>2)"
    by (simp only: real_sqrt_le_iff)
  with d have "\<bar>elem t b c n\<bar> \<le> ?r" by (simp add: norm1_def)
  then have le: "\<bar>elem t b c n\<bar> \<le> max ?r eps" by simp
  from eps have "0 < max ?r eps" by simp
  with le show ?thesis by (simp add: normalize_elem)
qed

lemma points_all_of_elem:
  assumes "points_all_of points delta = Inr points_all" and "k < 4"
  shows "elem points_all b c (4 * n + k) = elem points b c n + (if k = c + 1 then delta else 0)"
proof -
  from assms(2) have dm: "(4 * n + k) div 4 = n" "(4 * n + k) mod 4 = k" by simp_all
  from assms(1) have "elem points_all b c (4 * n + k)
      = elem points b c ((4 * n + k) div 4) + (if (4 * n + k) mod 4 = c + 1 then delta else 0)"
    by (auto simp: points_all_of_def split: prod.splits if_splits)
  then show ?thesis by (simp only: dm)
qed

lemma neg_differences_single:
  assumes "neg_differences pred = Inr nml" and "dims pred = (B, 1, M)"
  shows "dims nml = (B, 3, M div 4)"
    and "elem nml b k n = forward_difference pred b n k"
  using assms by (auto simp: neg_differences_def forward_difference_def split: if_splits)

lemma demo_calc:
  "\<exists>self'. HGPIFuNet_calc_normal (demo_filtered\<lparr>mlp := demo_layers\<rparr>) demo_point () None None
     (Some 1) None = Inr self'"
  by (simp add: hg_simps)

lemma sum_lessThan_3: "(\<Sum>j<(3::nat). f j) = f 0 + f 1 + f 2"
  by (simp add: eval_nat_numeral)

text \<open>
  C2, as amended. calc\_normal evaluates the network at \<open>p\<close>, \<open>p + delta * e\<^sub>x\<close>,
  \<open>p + delta * e\<^sub>y\<close> and \<open>p + delta * e\<^sub>z\<close> (columns \<open>4 * n + k\<close> of \<^verbatim>\<open>points_all\<close>), and for
  a single-channel prediction stores the negated forward difference divided by the larger
  of its Euclidean norm and \<open>1e-8\<close>. The stored normal is a unit vector when that norm is
  at least \<open>1e-8\<close>; below it the stored vector is shorter than 1.
\<close>

theorem HGPIFuNet_calc_normal_forward:
  assumes run: "HGPIFuNet_calc_normal self points calibs transforms labels delta fd_type = Inr self'"
      and pall: "points_all_of points (case delta of None \<Rightarrow> 0.1 | Some d \<Rightarrow> d) = Inr points_all"
      and prd: "predict self points_all calibs transforms = Inr pred"
      and dms: "dims pred = (B, 1, M)"
  shows "\<exists>nml. nmls self' = Some nml \<and> dims nml = (B, 3, M div 4)
           \<and> (\<forall>b c n. \<forall>k<4. elem points_all b c (4 * n + k)
                 = elem points b c n
                   + (if k = c + 1 then (case delta of None \<Rightarrow> 0.1 | Some d \<Rightarrow> d) else 0))
           \<and> (\<forall>b n k. elem nml b k n
                 = forward_difference pred b n k
                   / max (sqrt (\<Sum>j<3. (forward_difference pred b n j)\<^sup>2)) (1 / 10 ^ 8))
           \<and> (\<forall>b n. 1 / 10 ^ 8 \<le> sqrt (\<Sum>j<3. (forward_difference pred b n j)\<^sup>2)
                 \<longrightarrow> (\<Sum>k<3. (elem nml b k n)\<^sup>2) = 1)
           \<and> (\<forall>b n. sqrt (\<Sum>j<3. (forward_difference pred b n j)\<^sup>2) < 1 / 10 ^ 8
                 \<longrightarrow> (\<Sum>k<3. (elem nml b k n)\<^sup>2) < 1)"
proof -
  from run pall prd obtain raw where raw: "neg_differences pred = Inr raw"
    and stored: "nmls self' = Some (normalize (1 / 10 ^ 8) raw)"
    by (auto simp: HGPIFuNet_calc_normal_def Let_def split: sum.splits)
  note s = neg_differences_single [OF raw dms]
  let ?nml = "normalize (1 / 10 ^ 8) raw"
  have n1: "\<And>b n. norm1 raw b n = sqrt (\<Sum>j<3. (forward_difference pred b n j)\<^sup>2)"
    by (simp add: norm1_def s)
  have eps: "(0::real) < 1 / 10 ^ 8" by simp
  have "dims ?nml = (B, 3, M div 4)" by (simp add: normalize_dims s)
  moreover have "\<forall>b c n. \<forall>k<4. elem points_all b c (4 * n + k)
                 = elem points b c n
                   + (if k = c + 1 then (case delta of None \<Rightarrow> 0.1 | Some d \<Rightarrow> d) else 0)"
    using points_all_of_elem [OF pall] by blast
  moreover have "\<forall>b n k. elem ?nml b k n
                 = forward_difference pred b n k
                   / max (sqrt (\<Sum>j<3. (forward_difference pred b n j)\<^sup>2)) (1 / 10 ^ 8)"
    by (simp add: normalize_elem s n1 [symmetric])
  moreover have "\<forall>b n. 1 / 10 ^ 8 \<le> sqrt (\<Sum>j<3. (forward_difference pred b n j)\<^sup>2)
                 \<longrightarrow> (\<Sum>k<3. (elem ?nml b k n)\<^sup>2) = 1"
    using normalize_unit [OF s(1) eps] by (simp add: n1)
  moreover have "\<forall>b n. sqrt (\<Sum>j<3. (forward_difference pred b n j)\<^sup>2) < 1 / 10 ^ 8
                 \<longrightarrow> (\<Sum>k<3. (elem ?nml b k n)\<^sup>2) < 1"
    using normalize_small [OF s(1) eps] by (simp add: n1)
  ultimately show ?thesis using stored by blast
qed


theorem HGPIFuNet_calc_normal_forward_witness:
  "\<exists>self' nml. HGPIFuNet_calc_normal (demo_filtered\<lparr>mlp := demo_layers\<rparr>) demo_point () None
        None (Some 1) None = Inr self'
      \<and> nmls self' = Some nml \<and> dims nml = (1, 3, 1)
      \<and> elem nml 0 0 0 = -1 \<and> elem nml 0 1 0 = 0 \<and> elem nml 0 2 0 = 0"
proof -
  let ?net = "demo_filtered\<lparr>mlp := demo_layers\<rparr>"
  from demo_calc obtain self' where
    run: "HGPIFuNet_calc_normal ?net demo_point () None None (Some 1) None = Inr self'" ..
  obtain pa where pall: "points_all_of demo_point (case Some 1 of None \<Rightarrow> 0.1 | Some d \<Rightarrow> d) = Inr pa"
    and pa_dims: "dims pa = (1, 3, 4)"
    and pa_elem: "\<And>b c m. elem pa b c m = (if m mod 4 = c + 1 then 1 else 0)"
    by (simp add: points_all_of_def demo_point_def)
  obtain pred where prd: "predict ?net pa () None = Inr pred"
    and dms: "dims pred = (1, 1, 4)"
    and pred_elem: "\<And>m. elem pred 0 0 m = elem pa 0 0 m"
    using pa_dims
    by (simp add: predict_def point_local_feat_def take_channels_def tcat1_def
          demo_filtered_def demo_hg_def eval_mode_def demo_layers_def Let_def)
  have fd: "forward_difference pred 0 0 0 = -1" "forward_difference pred 0 0 (Suc 0) = 0"
    "forward_difference pred 0 0 2 = 0"
    by (simp_all add: forward_difference_def pred_elem pa_elem)
  then have nrm: "sqrt (\<Sum>j<3. (forward_difference pred 0 0 j)\<^sup>2) = 1"
    by (simp add: sum_lessThan_3)
  from HGPIFuNet_calc_normal_forward [OF run pall prd dms]
  obtain nml where stored: "nmls self' = Some nml" and d: "dims nml = (1, 3, 4 div 4)"
    and v: "\<And>b n k. elem nml b k n
               = forward_difference pred b n k
                 / max (sqrt (\<Sum>j<3. (forward_difference pred b n j)\<^sup>2)) (1 / 10 ^ 8)"
    by blast
  have "elem nml 0 0 0 = -1" "elem nml 0 1 0 = 0" "elem nml 0 2 0 = 0"
    by (simp_all add: v nrm fd)
  with run stored d show ?thesis by simp
qed


text \<open>
  The claim as the spec states it (the stored normal is a unit vector) fails on a network
  whose occupancy is the same everywhere: the four evaluations agree, the difference
  vector is zero, and the stored normal is the zero vector.
\<close>

theorem HGPIFuNet_calc_normal_flat_counterexample:
  "case HGPIFuNet_calc_normal (demo_filtered\<lparr>mlp := flat_layers\<rparr>) demo_point () None None
          None None of
     Inl x \<Rightarrow> False
   | Inr self' \<Rightarrow>
       (case nmls self' of
          None \<Rightarrow> False
        | Some nml \<Rightarrow> dims nml = (1, 3, 1)
            \<and> elem nml 0 0 0 = 0 \<and> elem nml 0 1 0 = 0 \<and> elem nml 0 2 0 = 0)"
  by (simp add: hg_simps normalize_def)


text \<open>
  Every component of a normal calc\_normal stores is in \<open>[-1, 1]\<close>: the bound the colour
  loop of gen\_mesh relies on.
\<close>

lemma HGPIFuNet_calc_normal_bounded:
  assumes "HGPIFuNet_calc_normal self points calibs transforms labels delta fd_type = Inr self'"
  shows "\<exists>nml B C N. nmls self' = Some nml \<and> dims nml = (B, C, N)
           \<and> (\<forall>b c n. c < C \<longrightarrow> \<bar>elem nml b c n\<bar> \<le> 1)"
proof -
  from assms obtain raw where stored: "nmls self' = Some (normalize (1 / 10 ^ 8) raw)"
    by (auto simp: HGPIFuNet_calc_normal_def Let_def split: sum.splits)
  obtain B C N where d: "dims raw = (B, C, N)" by (cases "dims raw")
  have eps: "(0::real) < 1 / 10 ^ 8" by simp
  from normalize_bounded [OF d eps] d stored show ?thesis
    by (auto simp: normalize_dims)
qed

end
